theory Spec2Isabelle
  imports Main "HOL-Library.Sublist" "HOL-Library.AList"
begin

section \<open>The multi-ui command line tool\<close>

text \<open>
  The repository ships two variants of one Node.js script.  Variant A (the first
  script: \<open>preferenceFile\<close>, a stored language only, a fixed output directory) and
  variant B (the second script: \<open>CONFIG_FILE\<close>, a stored language and component path,
  an installation step, classified fetch failures).  Every function of the scripts is
  embedded under its own name with the suffix \<open>_A\<close> or \<open>_B\<close>.

  The scripts are sequential: every \<open>await\<close> is the next step of one thread.  An
  \<open>async\<close> function is a function from the world to a result and the new world; a
  thrown value or rejected promise is \<open>Inl\<close>, a returned value is \<open>Inr\<close>.
\<close>

subsection \<open>JavaScript values and thrown errors\<close>

text \<open>
  Error objects by constructor, each with the fields the scripts read: the message,
  and for the HTTP client's error the status of \<open>error.response\<close> when there is one.
  A file system error holds its code, system call and path.
\<close>

datatype js_error =
    Error string
  | AxiosError string "nat option"
  | SystemError string string string
  | SyntaxError string
  | TypeError string

text \<open>
  The values that reach the scripts: what \<open>JSON.parse\<close> builds (a number is kept as
  its lexeme), \<open>undefined\<close>, and error objects.  Any value can be thrown.
\<close>

datatype js_value =
    JUndefined
  | JNull
  | JBool bool
  | JNum string
  | JStr string
  | JArr "js_value list"
  | JObj "(string \<times> js_value) list"
  | JErr js_error

type_synonym 'a result = "js_value + 'a"

fun errno_text :: "string \<Rightarrow> string" where
  "errno_text code =
     (if code = ''ENOENT'' then ''no such file or directory''
      else if code = ''ENOTDIR'' then ''not a directory''
      else if code = ''EISDIR'' then ''illegal operation on a directory''
      else if code = ''EEXIST'' then ''file already exists''
      else ''unknown error'')"

fun error_message :: "js_error \<Rightarrow> string" where
  "error_message (Error m) = m"
| "error_message (AxiosError m _) = m"
| "error_message (SystemError code syscall p) =
     code @ '': '' @ errno_text code @ '', '' @ syscall @ '' '' @ [CHR 0x27] @ p @ [CHR 0x27]"
| "error_message (SyntaxError m) = m"
| "error_message (TypeError m) = m"

text \<open>
  \<open>error.message\<close> of a caught value.  An error object has a message; a thrown string
  (the installer rejects with one) has no such property and reads \<open>undefined\<close>.
\<close>

fun message :: "js_value \<Rightarrow> js_value" where
  "message (JErr e) = JStr (error_message e)"
| "message _ = JUndefined"

text \<open>
  \<open>error.response?.status\<close>: only the HTTP client's error carries a response.
\<close>

fun response_status :: "js_value \<Rightarrow> nat option" where
  "response_status (JErr (AxiosError _ st)) = st"
| "response_status _ = None"

subsection \<open>Strings\<close>

text \<open>
  A string is the list of the bytes of its UTF-8 form.  On ASCII, lowercasing moves
  the letters \<open>A\<close> to \<open>Z\<close> to \<open>a\<close> to \<open>z\<close> and keeps every other character.
\<close>

definition lower_char :: "char \<Rightarrow> char" where
  "lower_char c =
     (case map_of (zip ''ABCDEFGHIJKLMNOPQRSTUVWXYZ'' ''abcdefghijklmnopqrstuvwxyz'') c of
        Some l \<Rightarrow> l
      | None \<Rightarrow> c)"

definition ascii :: "string \<Rightarrow> bool" where
  "ascii s = list_all (\<lambda>c. (of_char c :: nat) < 128) s"

text \<open>
  \<open>s.split(sep)\<close> for a separator of one character: the pieces between the
  separators, in order; the result is never empty (\<open>"".split("_")\<close> is \<open>[""]\<close>).
\<close>

fun js_split :: "char \<Rightarrow> string \<Rightarrow> string list" where
  "js_split sep [] = [[]]"
| "js_split sep (c # cs) =
     (if c = sep then [] # js_split sep cs
      else (case js_split sep cs of [] \<Rightarrow> [[c]] | p # ps \<Rightarrow> (c # p) # ps))"

text \<open>
  \<open>`${parts[0]}`\<close>: the first element inside a template literal; an empty array would
  give \<open>undefined\<close>, printed as such.
\<close>

fun template_first :: "string list \<Rightarrow> string" where
  "template_first [] = ''undefined''"
| "template_first (p # _) = p"

text \<open>Decimal digits of a number inside a template literal.\<close>

definition digit_char :: "nat \<Rightarrow> char" where
  "digit_char n = ''0123456789'' ! (n mod 10)"

fun show_nat :: "nat \<Rightarrow> string" where
  "show_nat n = (if n < 10 then [digit_char n] else show_nat (n div 10) @ [digit_char n])"

declare show_nat.simps [simp del]

text \<open>\<open>s.includes(t)\<close>: \<open>t\<close> occurs in \<open>s\<close>.\<close>

fun js_includes :: "string \<Rightarrow> string \<Rightarrow> bool" where
  "js_includes [] t = (t = [])"
| "js_includes (c # cs) t = (prefix t (c # cs) \<or> js_includes cs t)"

subsection \<open>The environment and the world\<close>

text \<open>
  What the remote host answers to a GET, as the HTTP client sees it after following
  redirects: a response (status, status text and \<open>response.data\<close>, which is the body
  text unless the client decoded it), or no response at all with the client's message.
\<close>

datatype http_outcome =
    Reply nat string js_value
  | NoReply string

record response =
  status :: nat
  statusText :: string
  data :: js_value

text \<open>
  The collaborators of one run: the working directory, the remote host, the Babel
  transform (\<open>transformSync(code, {presets, filename}).code\<close>, or what it throws), the
  answers of the interactive prompt (language and directory, or what it rejects with),
  the outcome of \<open>npm install\<close> (\<open>None\<close> on success, the standard error text on
  failure), and the engine's lowercasing of strings that are not ASCII.
\<close>

record env =
  cwd :: string
  remote :: "string \<Rightarrow> http_outcome"
  babel :: "js_value \<Rightarrow> string \<Rightarrow> string result"
  answers :: "(string \<times> string) result"
  npm :: "string option"
  unicode_lower :: "string \<Rightarrow> string"

text \<open>
  \<open>s.toLowerCase()\<close>: a string of ASCII characters is lowercased letter by letter; for
  a string with any other character the result is the engine's, by its Unicode tables.
\<close>

definition toLowerCase :: "env \<Rightarrow> string \<Rightarrow> string" where
  "toLowerCase e s = (if ascii s then map lower_char s else unicode_lower e s)"

text \<open>
  Every effect that leaves the process or changes the disk is recorded in order.
\<close>

datatype event =
    Console_log "js_value list"
  | Console_warn "js_value list"
  | Console_error "js_value list"
  | Http_get string
  | Exec string
  | Prompt
  | Fs_mkdir string
  | Fs_write string

text \<open>
  The world: regular files (absolute path as its list of names, with the content),
  directories, and the events so far.  The root directory \<open>[]\<close> always exists.
\<close>

record world =
  files :: "(string list \<times> string) list"
  dirs :: "string list list"
  events :: "event list"

definition emit :: "event \<Rightarrow> world \<Rightarrow> world" where
  "emit e w = w\<lparr>events := events w @ [e]\<rparr>"

definition console_log :: "js_value list \<Rightarrow> world \<Rightarrow> world" where
  "console_log args = emit (Console_log args)"

definition console_warn :: "js_value list \<Rightarrow> world \<Rightarrow> world" where
  "console_warn args = emit (Console_warn args)"

definition console_error :: "js_value list \<Rightarrow> world \<Rightarrow> world" where
  "console_error args = emit (Console_error args)"

text \<open>The URLs requested so far, in order.\<close>

fun requests :: "event list \<Rightarrow> string list" where
  "requests [] = []"
| "requests (Http_get u # es) = u # requests es"
| "requests (_ # es) = requests es"

subsection \<open>Paths: Node's \<open>path\<close> module on POSIX\<close>

text \<open>\<open>parts.join(sep)\<close>.\<close>

fun js_join :: "string \<Rightarrow> string list \<Rightarrow> string" where
  "js_join sep [] = []"
| "js_join sep [p] = p"
| "js_join sep (p # q # ps) = p @ sep @ js_join sep (q # ps)"

text \<open>
  \<open>normalizeString\<close> reads the path segment by segment and keeps the segments of the
  result: an empty segment and \<open>.\<close> are dropped, \<open>..\<close> removes the last segment kept
  unless there is none or it is \<open>..\<close> itself, in which case it is kept only when the
  path may climb above its start.
\<close>

definition normalize_step :: "bool \<Rightarrow> string list \<Rightarrow> string \<Rightarrow> string list" where
  "normalize_step allowAboveRoot res seg =
     (if seg = [] \<or> seg = ''.'' then res
      else if seg = ''..'' then
        (if res \<noteq> [] \<and> last res \<noteq> ''..'' then butlast res
         else if allowAboveRoot then res @ [''..'']
         else res)
      else res @ [seg])"

definition normalizeString :: "string \<Rightarrow> bool \<Rightarrow> string" where
  "normalizeString p allowAboveRoot =
     js_join ''/'' (foldl (normalize_step allowAboveRoot) [] (js_split (CHR ''/'') p))"

definition path_normalize :: "string \<Rightarrow> string" where
  "path_normalize p =
     (if p = [] then ''.''
      else
        let isAbsolute = (hd p = CHR ''/'');
            trailingSeparator = (last p = CHR ''/'');
            q = normalizeString p (\<not> isAbsolute)
        in if q = [] then (if isAbsolute then ''/'' else if trailingSeparator then ''./'' else ''.'')
           else (if isAbsolute then ''/'' else []) @ q @ (if trailingSeparator then ''/'' else []))"

definition path_join :: "string list \<Rightarrow> string" where
  "path_join args =
     (let joined = js_join ''/'' (filter (\<lambda>arg. arg \<noteq> []) args)
      in if joined = [] then ''.'' else path_normalize joined)"

text \<open>
  \<open>path.extname\<close>: of the last component (trailing separators apart), the part from
  its last dot on; empty when there is no dot, when the dot is the first character,
  and for \<open>..\<close>.
\<close>

definition path_extname :: "string \<Rightarrow> string" where
  "path_extname p =
     (let base = rev (takeWhile (\<lambda>c. c \<noteq> CHR ''/'') (dropWhile (\<lambda>c. c = CHR ''/'') (rev p)));
          ext = rev (takeWhile (\<lambda>c. c \<noteq> CHR ''.'') (rev base))
      in if CHR ''.'' \<notin> set base then []
         else if length ext + 1 = length base then []
         else if base = ''..'' then []
         else CHR ''.'' # ext)"

text \<open>
  \<open>path.dirname\<close>: the path up to the separator before its last component; \<open>/\<close> or
  \<open>.\<close> when there is no such separator.
\<close>

definition path_dirname :: "string \<Rightarrow> string" where
  "path_dirname p =
     (if p = [] then ''.''
      else
        let hasRoot = (hd p = CHR ''/'');
            upto = dropWhile (\<lambda>c. c \<noteq> CHR ''/'') (dropWhile (\<lambda>c. c = CHR ''/'') (rev (tl p)))
        in if upto = [] then (if hasRoot then ''/'' else ''.'')
           else if hasRoot \<and> length upto = 1 then ''//''
           else take (length upto) p)"

text \<open>\<open>s.replace(pattern, replacement)\<close> with a string pattern: the first occurrence.\<close>

fun js_replace :: "string \<Rightarrow> string \<Rightarrow> string \<Rightarrow> string" where
  "js_replace pat rep [] = (if pat = [] then rep else [])"
| "js_replace pat rep (c # cs) =
     (if prefix pat (c # cs) then rep @ drop (length pat) (c # cs)
      else c # js_replace pat rep cs)"

subsection \<open>The file system\<close>

text \<open>
  A tree without links.  Every path the scripts hand to the file system starts with
  \<open>process.cwd()\<close>, which is absolute, so a path is resolved from the root.
\<close>

definition isDir :: "world \<Rightarrow> string list \<Rightarrow> bool" where
  "isDir w p = (p = [] \<or> p \<in> set (dirs w))"

definition isFile :: "world \<Rightarrow> string list \<Rightarrow> bool" where
  "isFile w p = (map_of (files w) p \<noteq> None)"

text \<open>
  Path resolution as the operating system does it: each step starts in a directory
  (\<open>ENOTDIR\<close> from a regular file, \<open>ENOENT\<close> from nothing); \<open>..\<close> is the parent.  The
  name reached last need not exist.
\<close>

fun walk :: "world \<Rightarrow> string list \<Rightarrow> string list \<Rightarrow> string + string list" where
  "walk w cur [] = Inr cur"
| "walk w cur (s # ss) =
     (if \<not> isDir w cur then Inl (if isFile w cur then ''ENOTDIR'' else ''ENOENT'')
      else if s = [] \<or> s = ''.'' then walk w cur ss
      else if s = ''..'' then walk w (butlast cur) ss
      else walk w (cur @ [s]) ss)"

definition resolve :: "world \<Rightarrow> string \<Rightarrow> string + string list" where
  "resolve w p = walk w [] (js_split (CHR ''/'') p)"

definition existsSync :: "string \<Rightarrow> world \<Rightarrow> bool" where
  "existsSync p w =
     (case resolve w p of Inl code \<Rightarrow> False | Inr t \<Rightarrow> isDir w t \<or> isFile w t)"

definition readFileSync :: "string \<Rightarrow> world \<Rightarrow> string result" where
  "readFileSync p w =
     (case resolve w p of
        Inl code \<Rightarrow> Inl (JErr (SystemError code ''open'' p))
      | Inr t \<Rightarrow>
          (case map_of (files w) t of
             Some content \<Rightarrow> Inr content
           | None \<Rightarrow>
               if isDir w t then Inl (JErr (SystemError ''EISDIR'' ''read'' p))
               else Inl (JErr (SystemError ''ENOENT'' ''open'' p))))"

text \<open>
  \<open>fs.writeFileSync(path, data)\<close>: the data must be a string (a buffer never reaches
  the scripts); the file is created or replaced; a directory cannot be written.
\<close>

definition writeFileSync :: "string \<Rightarrow> js_value \<Rightarrow> world \<Rightarrow> unit result \<times> world" where
  "writeFileSync p contents w =
     (let w1 = emit (Fs_write p) w in
      case contents of
        JStr content \<Rightarrow>
          (case resolve w1 p of
             Inl code \<Rightarrow> (Inl (JErr (SystemError code ''open'' p)), w1)
           | Inr t \<Rightarrow>
               if isDir w1 t then (Inl (JErr (SystemError ''EISDIR'' ''open'' p)), w1)
               else (Inr (), w1\<lparr>files := AList.update t content (files w1)\<rparr>))
      | _ \<Rightarrow>
          (Inl (JErr (TypeError (''The '' @ [CHR 0x22] @ ''data'' @ [CHR 0x22]
             @ '' argument must be of type string or an instance of Buffer, TypedArray, or DataView.''))),
           w1))"

text \<open>
  \<open>fs.mkdirSync(path, {recursive: true})\<close>, which is also \<open>fs.ensureDirSync(path)\<close>:
  every missing directory along the path is created; a regular file in the way fails.
\<close>

fun mkwalk :: "world \<Rightarrow> string list \<Rightarrow> string list \<Rightarrow> string + world" where
  "mkwalk w cur [] = Inr w"
| "mkwalk w cur (s # ss) =
     (if s = [] \<or> s = ''.'' then mkwalk w cur ss
      else if s = ''..'' then mkwalk w (butlast cur) ss
      else if isFile w (cur @ [s]) then Inl (if ss = [] then ''EEXIST'' else ''ENOTDIR'')
      else mkwalk (w\<lparr>dirs := List.insert (cur @ [s]) (dirs w)\<rparr>) (cur @ [s]) ss)"

definition mkdirSync_recursive :: "string \<Rightarrow> world \<Rightarrow> unit result \<times> world" where
  "mkdirSync_recursive p w =
     (let w1 = emit (Fs_mkdir p) w in
      case mkwalk w1 [] (js_split (CHR ''/'') p) of
        Inl code \<Rightarrow> (Inl (JErr (SystemError code ''mkdir'' p)), w1)
      | Inr w2 \<Rightarrow> (Inr (), w2))"

definition ensureDirSync :: "string \<Rightarrow> world \<Rightarrow> unit result \<times> world" where
  "ensureDirSync = mkdirSync_recursive"

text \<open>\<open>fs.readdirSync(path)\<close>: the names in a directory.\<close>

definition readdirSync :: "string \<Rightarrow> world \<Rightarrow> string list result" where
  "readdirSync p w =
     (case resolve w p of
        Inl code \<Rightarrow> Inl (JErr (SystemError code ''scandir'' p))
      | Inr t \<Rightarrow>
          if isDir w t
          then Inr (map last (filter (\<lambda>q. q \<noteq> [] \<and> butlast q = t) (dirs w @ map fst (files w))))
          else if isFile w t then Inl (JErr (SystemError ''ENOTDIR'' ''scandir'' p))
          else Inl (JErr (SystemError ''ENOENT'' ''scandir'' p)))"

text \<open>
  \<open>fs.outputFileSync(file, data)\<close> of fs-extra: the parent directory is created when
  nothing exists at its path, then the file is written.
\<close>

definition outputFileSync :: "string \<Rightarrow> js_value \<Rightarrow> world \<Rightarrow> unit result \<times> world" where
  "outputFileSync file contents w =
     (let dir = path_dirname file in
      if existsSync dir w then writeFileSync file contents w
      else (case mkdirSync_recursive dir w of
              (Inl err, w1) \<Rightarrow> (Inl err, w1)
            | (Inr u, w1) \<Rightarrow> writeFileSync file contents w1))"

subsection \<open>JSON\<close>

text \<open>
  \<open>JSON.stringify\<close> of a string: the quote, the backslash and the control characters
  are escaped, every other byte is kept.
\<close>

definition hex_digit :: "nat \<Rightarrow> char" where
  "hex_digit n = ''0123456789abcdef'' ! (n mod 16)"

definition json_escape_char :: "char \<Rightarrow> string" where
  "json_escape_char c =
     (if c = CHR 0x22 then [CHR 0x5C, CHR 0x22]
      else if c = CHR 0x5C then [CHR 0x5C, CHR 0x5C]
      else if c = CHR 0x08 then [CHR 0x5C, CHR ''b'']
      else if c = CHR 0x09 then [CHR 0x5C, CHR ''t'']
      else if c = CHR 0x0A then [CHR 0x5C, CHR ''n'']
      else if c = CHR 0x0C then [CHR 0x5C, CHR ''f'']
      else if c = CHR 0x0D then [CHR 0x5C, CHR ''r'']
      else if (of_char c :: nat) < 32
        then [CHR 0x5C, CHR ''u'', CHR ''0'', CHR ''0'',
              hex_digit ((of_char c :: nat) div 16), hex_digit (of_char c)]
      else [c])"

definition json_quote :: "string \<Rightarrow> string" where
  "json_quote s = CHR 0x22 # concat (map json_escape_char s) @ [CHR 0x22]"

text \<open>
  \<open>JSON.stringify(object, null, 2)\<close> of an object whose values are strings, which is
  all the scripts ever serialise: one member per line, indented by two spaces.
\<close>

definition json_member :: "string \<times> string \<Rightarrow> string" where
  "json_member m = ''  '' @ json_quote (fst m) @ '': '' @ json_quote (snd m)"

definition JSON_stringify :: "(string \<times> string) list \<Rightarrow> string" where
  "JSON_stringify members =
     (if members = [] then ''{}''
      else ''{'' @ [CHR 0x0A] @ js_join ('','' @ [CHR 0x0A]) (map json_member members)
           @ [CHR 0x0A] @ ''}'')"

text \<open>
  \<open>JSON.parse\<close>.  A code point written as \<open>\uXXXX\<close> is stored in UTF-8, a pair of
  surrogates as the one code point it encodes.
\<close>

definition hex_value :: "char \<Rightarrow> nat option" where
  "hex_value c =
     map_of (zip ''0123456789abcdefABCDEF''
       [0, 1, 2, 3, 4, 5, 6, 7, 8, 9, 10, 11, 12, 13, 14, 15, 10, 11, 12, 13, 14, 15]) c"

fun hex4 :: "string \<Rightarrow> nat option" where
  "hex4 (a # b # c # d # _) =
     (case (hex_value a, hex_value b, hex_value c, hex_value d) of
        (Some x, Some y, Some z, Some u) \<Rightarrow> Some (x * 4096 + y * 256 + z * 16 + u)
      | _ \<Rightarrow> None)"
| "hex4 _ = None"

definition utf8_encode :: "nat \<Rightarrow> string" where
  "utf8_encode n =
     (if n < 128 then [char_of n]
      else if n < 2048 then [char_of (192 + n div 64), char_of (128 + n mod 64)]
      else if n < 65536 then
        [char_of (224 + n div 4096), char_of (128 + n div 64 mod 64), char_of (128 + n mod 64)]
      else
        [char_of (240 + n div 262144), char_of (128 + n div 4096 mod 64),
         char_of (128 + n div 64 mod 64), char_of (128 + n mod 64)])"

definition simple_escape :: "char \<Rightarrow> char option" where
  "simple_escape c =
     map_of [(CHR 0x22, CHR 0x22), (CHR 0x5C, CHR 0x5C), (CHR ''/'', CHR ''/''),
             (CHR ''b'', CHR 0x08), (CHR ''f'', CHR 0x0C), (CHR ''n'', CHR 0x0A),
             (CHR ''r'', CHR 0x0D), (CHR ''t'', CHR 0x09)] c"

text \<open>
  The low surrogate that follows a high one, when the text goes on with its escape.
\<close>

definition low_surrogate :: "string \<Rightarrow> nat option" where
  "low_surrogate s =
     (case s of
        b # u # hs \<Rightarrow>
          if b = CHR 0x5C \<and> u = CHR ''u'' then
            (case hex4 hs of
               Some l \<Rightarrow> if 56320 \<le> l \<and> l < 57344 then Some l else None
             | None \<Rightarrow> None)
          else None
      | _ \<Rightarrow> None)"

text \<open>
  The characters of a string after its opening quote, up to the closing quote, and the
  rest of the text.
\<close>

fun parse_string_chars :: "string \<Rightarrow> (string \<times> string) option" where
  "parse_string_chars [] = None"
| "parse_string_chars (c # cs) =
     (if c = CHR 0x22 then Some ([], cs)
      else if c = CHR 0x5C then
        (case cs of
           [] \<Rightarrow> None
         | x # r \<Rightarrow>
             if x = CHR ''u'' then
               (case hex4 r of
                  None \<Rightarrow> None
                | Some h \<Rightarrow>
                    (case (if 55296 \<le> h \<and> h < 56320 then low_surrogate (drop 4 r) else None) of
                       Some l \<Rightarrow>
                         map_option
                           (\<lambda>(t, rest). (utf8_encode (65536 + (h - 55296) * 1024 + (l - 56320)) @ t, rest))
                           (parse_string_chars (drop 10 r))
                     | None \<Rightarrow>
                         map_option (\<lambda>(t, rest). (utf8_encode h @ t, rest))
                           (parse_string_chars (drop 4 r))))
             else
               (case simple_escape x of
                  None \<Rightarrow> None
                | Some d \<Rightarrow> map_option (\<lambda>(t, rest). (d # t, rest)) (parse_string_chars r)))
      else if (of_char c :: nat) < 32 then None
      else map_option (\<lambda>(t, rest). (c # t, rest)) (parse_string_chars cs))"

definition is_digit :: "char \<Rightarrow> bool" where
  "is_digit c = (c \<in> set ''0123456789'')"

text \<open>
  A number: an optional minus, an integer part without a leading zero, an optional
  fraction and an optional exponent.  The value is its lexeme.
\<close>

definition parse_number :: "string \<Rightarrow> (js_value \<times> string) option" where
  "parse_number s =
     (let sign = takeWhile (\<lambda>c. c = CHR ''-'') (take 1 s);
          s1 = drop (length sign) s;
          int_part = takeWhile is_digit s1;
          s2 = drop (length int_part) s1;
          frac = (if take 1 s2 = ''.'' then CHR ''.'' # takeWhile is_digit (drop 1 s2) else []);
          s3 = drop (length frac) s2;
          e_mark = takeWhile (\<lambda>c. c = CHR ''e'' \<or> c = CHR ''E'') (take 1 s3);
          e_sign = (if e_mark = [] then []
                    else takeWhile (\<lambda>c. c = CHR ''+'' \<or> c = CHR ''-'') (take 1 (drop 1 s3)));
          e_digits = (if e_mark = [] then []
                      else takeWhile is_digit (drop (1 + length e_sign) s3));
          expo = e_mark @ e_sign @ e_digits;
          s4 = drop (length expo) s3
      in if int_part = [] \<or> (1 < length int_part \<and> hd int_part = CHR ''0'') then None
         else if frac = ''.'' then None
         else if e_mark \<noteq> [] \<and> e_digits = [] then None
         else Some (JNum (sign @ int_part @ frac @ expo), s4))"

definition is_ws :: "char \<Rightarrow> bool" where
  "is_ws c = (c = CHR '' '' \<or> c = CHR 0x09 \<or> c = CHR 0x0A \<or> c = CHR 0x0D)"

definition skip_ws :: "string \<Rightarrow> string" where
  "skip_ws s = dropWhile is_ws s"

text \<open>
  One value; the elements of an array after its bracket; the members of an object
  after its brace.  Each gives what it read and the rest of the text.
\<close>

datatype parse_mode =
    PValue
  | PElements "js_value list"
  | PMembers "(string \<times> js_value) list"

function parse_json :: "parse_mode \<Rightarrow> string \<Rightarrow> (js_value \<times> string) option" where
  "parse_json PValue s =
     (case skip_ws s of
        [] \<Rightarrow> None
      | c # cs \<Rightarrow>
          if c = CHR ''{'' then
            (case skip_ws cs of
               [] \<Rightarrow> None
             | d # ds \<Rightarrow>
                 if d = CHR ''}'' then Some (JObj [], ds) else parse_json (PMembers []) (d # ds))
          else if c = CHR ''['' then
            (case skip_ws cs of
               [] \<Rightarrow> None
             | d # ds \<Rightarrow>
                 if d = CHR '']'' then Some (JArr [], ds) else parse_json (PElements []) (d # ds))
          else if c = CHR 0x22 then
            map_option (\<lambda>(t, rest). (JStr t, rest)) (parse_string_chars cs)
          else if prefix ''true'' (c # cs) then Some (JBool True, drop 3 cs)
          else if prefix ''false'' (c # cs) then Some (JBool False, drop 4 cs)
          else if prefix ''null'' (c # cs) then Some (JNull, drop 3 cs)
          else parse_number (c # cs))"
| "parse_json (PElements acc) s =
     (case parse_json PValue s of
        None \<Rightarrow> None
      | Some (v, r) \<Rightarrow>
          (case skip_ws r of
             [] \<Rightarrow> None
           | c # cs \<Rightarrow>
               if c = CHR '','' \<and> length cs < length s
                 then parse_json (PElements (acc @ [v])) cs
               else if c = CHR '']'' then Some (JArr (acc @ [v]), cs)
               else None))"
| "parse_json (PMembers acc) s =
     (case skip_ws s of
        [] \<Rightarrow> None
      | c # cs \<Rightarrow>
          if c = CHR 0x22 then
            (case parse_string_chars cs of
               None \<Rightarrow> None
             | Some (k, r) \<Rightarrow>
                 (case skip_ws r of
                    [] \<Rightarrow> None
                  | d # ds \<Rightarrow>
                      if d = CHR '':'' \<and> length ds < length s then
                        (case parse_json PValue ds of
                           None \<Rightarrow> None
                         | Some (v, r2) \<Rightarrow>
                             (case skip_ws r2 of
                                [] \<Rightarrow> None
                              | x # xs \<Rightarrow>
                                  if x = CHR '','' \<and> length xs < length s
                                    then parse_json (PMembers (acc @ [(k, v)])) xs
                                  else if x = CHR ''}'' then Some (JObj (acc @ [(k, v)]), xs)
                                  else None))
                      else None))
          else None)"
  by pat_completeness auto
termination
proof (relation "measure (\<lambda>(m, s). 2 * length s + (case m of PValue \<Rightarrow> 0 | _ \<Rightarrow> 1))")
  show "wf (measure (\<lambda>(m, s). 2 * length s + (case m of PValue \<Rightarrow> 0 | _ \<Rightarrow> 1)))"
    by simp
next
  fix s c cs d ds
  assume "skip_ws s = c # cs" "skip_ws cs = d # ds"
  then have "length (d # ds) \<le> length cs" "length (c # cs) \<le> length s"
    using length_dropWhile_le [of is_ws cs] length_dropWhile_le [of is_ws s]
    by (simp_all add: skip_ws_def)
  then have "length (d # ds) < length s" by simp
  then show "((PMembers [], d # ds), PValue, s)
      \<in> measure (\<lambda>(m, s). 2 * length s + (case m of PValue \<Rightarrow> 0 | _ \<Rightarrow> 1))"
    and "((PElements [], d # ds), PValue, s)
      \<in> measure (\<lambda>(m, s). 2 * length s + (case m of PValue \<Rightarrow> 0 | _ \<Rightarrow> 1))"
    by simp_all
qed simp_all

declare parse_json.simps [simp del]

text \<open>
  \<open>JSON.parse(text)\<close>: one value and nothing after it but white space, or a
  \<open>SyntaxError\<close> (its message stands for the engine's, which names the position).
\<close>

definition JSON_parse :: "string \<Rightarrow> js_value result" where
  "JSON_parse s =
     (case parse_json PValue s of
        Some (v, rest) \<Rightarrow>
          if skip_ws rest = [] then Inr v
          else Inl (JErr (SyntaxError ''Unexpected token in JSON''))
      | None \<Rightarrow> Inl (JErr (SyntaxError ''Unexpected token in JSON'')))"

text \<open>
  \<open>value[key]\<close> for the two keys the scripts read (\<open>language\<close>, \<open>componentPath\<close>): of an
  object its member (the last one of that name), of \<open>null\<close> and \<open>undefined\<close> a
  \<open>TypeError\<close>, of any other value \<open>undefined\<close>.
\<close>

fun get_property :: "js_value \<Rightarrow> string \<Rightarrow> js_value result" where
  "get_property (JObj members) k =
     (case map_of (rev members) k of Some v \<Rightarrow> Inr v | None \<Rightarrow> Inr JUndefined)"
| "get_property JNull k =
     Inl (JErr (TypeError (''Cannot read properties of null (reading '' @ [CHR 0x27] @ k
        @ [CHR 0x27] @ '')'')))"
| "get_property JUndefined k =
     Inl (JErr (TypeError (''Cannot read properties of undefined (reading '' @ [CHR 0x27] @ k
        @ [CHR 0x27] @ '')'')))"
| "get_property _ k = Inr JUndefined"

subsection \<open>The HTTP client\<close>

text \<open>
  \<open>axios.get(url)\<close> with the client's defaults: a status from 200 to 299 resolves with
  the response; any other status rejects with the client's error, which carries the
  response; no response rejects with an error that carries none.
\<close>

definition axios_get :: "env \<Rightarrow> string \<Rightarrow> world \<Rightarrow> response result \<times> world" where
  "axios_get e url w =
     (let w1 = emit (Http_get url) w in
      case remote e url of
        Reply st txt body \<Rightarrow>
          if 200 \<le> st \<and> st < 300
          then (Inr \<lparr>status = st, statusText = txt, data = body\<rparr>, w1)
          else (Inl (JErr (AxiosError (''Request failed with status code '' @ show_nat st)
                  (Some st))), w1)
      | NoReply m \<Rightarrow> (Inl (JErr (AxiosError m None)), w1))"

subsection \<open>Fetching a component\<close>

definition GITHUB_REPO :: string where
  "GITHUB_REPO = ''om0852/multi-ui''"

definition COMPONENTS_PATH :: string where
  "COMPONENTS_PATH = ''src/app''"

definition component_url_A :: "env \<Rightarrow> string \<Rightarrow> string" where
  "component_url_A e componentName =
     ''https://raw.githubusercontent.com/'' @ GITHUB_REPO @ ''/main/'' @ COMPONENTS_PATH
       @ ''/'' @ template_first (js_split (CHR ''_'') (toLowerCase e componentName))
       @ ''/_components/'' @ componentName @ ''.tsx''"

text \<open>
  Variant A: a response that is not 200 throws inside the \<open>try\<close>; the handler prints
  the message of whatever was thrown and throws it again.
\<close>

definition fetchComponentFromGitHub_A ::
    "env \<Rightarrow> string \<Rightarrow> world \<Rightarrow> js_value result \<times> world" where
  "fetchComponentFromGitHub_A e componentName w =
     (let url = component_url_A e componentName;
          (r, w1) = axios_get e url w;
          attempt = (case r of
              Inl err \<Rightarrow> Inl err
            | Inr resp \<Rightarrow>
                if status resp = 200 then Inr (data resp)
                else Inl (JErr (Error (''Failed to fetch component from GitHub: ''
                       @ show_nat (status resp)))))
      in case attempt of
           Inr code \<Rightarrow> (Inr code, w1)
         | Inl err \<Rightarrow>
             (Inl err,
              console_error [JStr ''Error fetching component from GitHub:'', message err] w1))"

text \<open>
  Variant B: the URL has the literal segment \<open>app\<close> (the constant \<open>COMPONENTS_PATH\<close>
  of that script is not used).  The handler replaces whatever was thrown: a response
  status of 404 by a "not found" error, anything else by a generic error.
\<close>

definition componentBaseName :: "env \<Rightarrow> string \<Rightarrow> string" where
  "componentBaseName e componentName =
     template_first (js_split (CHR ''_'') (toLowerCase e componentName))"

definition component_url_B :: "env \<Rightarrow> string \<Rightarrow> string" where
  "component_url_B e componentName =
     ''https://raw.githubusercontent.com/'' @ GITHUB_REPO @ ''/main/app/''
       @ componentBaseName e componentName @ ''/_components/'' @ componentName @ ''.tsx''"

text \<open>
  The message of the generic error is \<open>`Error fetching component: ${error.message}`\<close>;
  whatever is thrown inside this \<open>try\<close> is an error object, whose message is a string.
\<close>

fun template_value :: "js_value \<Rightarrow> string" where
  "template_value (JStr s) = s"
| "template_value JUndefined = ''undefined''"
| "template_value JNull = ''null''"
| "template_value (JBool b) = (if b then ''true'' else ''false'')"
| "template_value (JNum n) = n"
| "template_value (JArr _) = ''''"
| "template_value (JObj _) = ''[object Object]''"
| "template_value (JErr e) = ''Error: '' @ error_message e"

definition fetchComponentFromGitHub_B ::
    "env \<Rightarrow> string \<Rightarrow> world \<Rightarrow> js_value result \<times> world" where
  "fetchComponentFromGitHub_B e componentName w =
     (let url = component_url_B e componentName;
          (r, w1) = axios_get e url w;
          attempt = (case r of
              Inl err \<Rightarrow> Inl err
            | Inr resp \<Rightarrow>
                if status resp = 200 then Inr (data resp)
                else Inl (JErr (Error (''Failed to fetch component: '' @ statusText resp))))
      in case attempt of
           Inr code \<Rightarrow> (Inr code, w1)
         | Inl err \<Rightarrow>
             if response_status err = Some 404
             then (Inl (JErr (Error (''Component '' @ [CHR 0x27] @ componentName @ [CHR 0x27]
                     @ '' not found at path: '' @ url
                     @ [CHR 0x0A] @ ''Please check the component name and path.''))), w1)
             else (Inl (JErr (Error (''Error fetching component: ''
                     @ template_value (message err)))), w1))"

subsection \<open>Sequencing\<close>

text \<open>
  One statement after another: a throw skips what follows.  \<open>catch_m\<close> is
  \<open>try { ... } catch (error) { ... }\<close>.
\<close>

definition bind_m ::
    "'a result \<times> world \<Rightarrow> ('a \<Rightarrow> world \<Rightarrow> 'b result \<times> world) \<Rightarrow> 'b result \<times> world" where
  "bind_m m f = (case m of (Inl err, w) \<Rightarrow> (Inl err, w) | (Inr x, w) \<Rightarrow> f x w)"

definition catch_m ::
    "'a result \<times> world \<Rightarrow> (js_value \<Rightarrow> world \<Rightarrow> 'a result \<times> world) \<Rightarrow> 'a result \<times> world" where
  "catch_m m h = (case m of (Inl err, w) \<Rightarrow> h err w | (Inr x, w) \<Rightarrow> (Inr x, w))"

text \<open>
  \<open>const [action, componentName] = process.argv.slice(2)\<close>: the first two arguments
  after the script name, each \<open>undefined\<close> when missing.  An argument counts as present
  (is truthy) when it is there and not empty.
\<close>

definition argv_action :: "string list \<Rightarrow> string option" where
  "argv_action argv = (case argv of [] \<Rightarrow> None | a # rest \<Rightarrow> Some a)"

definition argv_componentName :: "string list \<Rightarrow> string option" where
  "argv_componentName argv = (case drop 1 argv of [] \<Rightarrow> None | n # rest \<Rightarrow> Some n)"

fun truthy :: "string option \<Rightarrow> bool" where
  "truthy None = False"
| "truthy (Some s) = (s \<noteq> [])"

subsection \<open>Variant A\<close>

definition preferenceFile :: "env \<Rightarrow> string" where
  "preferenceFile e = path_join [cwd e, ''multi-ui.config.json'']"

text \<open>
  \<open>setupProject\<close> asks for the language only; the whole body is inside \<open>try\<close>, and the
  handler prints the caught value itself.
\<close>

definition setupProject_A :: "env \<Rightarrow> world \<Rightarrow> world" where
  "setupProject_A e w =
     snd (catch_m
       (bind_m (answers e, emit Prompt w) (\<lambda>(language, directory) w1.
        let preference = [(''language'', toLowerCase e language)] in
        bind_m (writeFileSync (preferenceFile e) (JStr (JSON_stringify preference)) w1) (\<lambda>u w2.
        (Inr (), console_log
           [JStr (''Project setup complete! Language preference saved: '' @ language)] w2))))
       (\<lambda>err w1. (Inr (), console_error [JStr ''Error during setup:'', err] w1)))"

definition getPreference_A :: "env \<Rightarrow> world \<Rightarrow> js_value result \<times> world" where
  "getPreference_A e w =
     (if existsSync (preferenceFile e) w then
        bind_m (readFileSync (preferenceFile e) w, w) (\<lambda>text w1.
        bind_m (JSON_parse text, w1) (\<lambda>preference w2.
        (get_property preference ''language'', w2)))
      else (Inr (JStr ''typescript''),
            console_warn [JStr ''No preference found. Defaulting to TypeScript.''] w))"

text \<open>
  \<open>convertTsxToJsx(inputDir, outputDir)\<close> of variant A converts the \<open>.tsx\<close> files found
  in a directory; \<open>convert_files\<close> is its \<open>forEach\<close> over the names read at the start.
\<close>

fun convert_files ::
    "env \<Rightarrow> string \<Rightarrow> string \<Rightarrow> string list \<Rightarrow> world \<Rightarrow> unit result \<times> world" where
  "convert_files e inputDir outputDir [] w = (Inr (), w)"
| "convert_files e inputDir outputDir (file # rest) w =
     (if path_extname file = ''.tsx'' then
        (let filePath = path_join [inputDir, file];
             outputFilePath = path_join [outputDir, js_replace ''.tsx'' ''.jsx'' file]
         in bind_m (readFileSync filePath w, w) (\<lambda>code w1.
            bind_m (babel e (JStr code) file, w1) (\<lambda>transformed w2.
            bind_m (outputFileSync outputFilePath (JStr transformed) w2) (\<lambda>u w3.
            convert_files e inputDir outputDir rest
              (console_log [JStr (''Converted: '' @ file @ '' -> '' @ outputFilePath)] w3)))))
      else convert_files e inputDir outputDir rest w)"

definition convertTsxToJsx_A :: "env \<Rightarrow> string \<Rightarrow> string \<Rightarrow> world \<Rightarrow> unit result \<times> world" where
  "convertTsxToJsx_A e inputDir outputDir w =
     bind_m (readdirSync inputDir w, w) (\<lambda>names w1.
     convert_files e inputDir outputDir names w1)"

text \<open>
  \<open>createComponent\<close> of variant A: the directory is \<open>multi-ui/components\<close> under the
  working directory, the file path is built by concatenation, and the whole body is
  inside \<open>try\<close>.  With the preference \<open>javascript\<close> the fetched text is not used: the
  branch converts the directory \<open>multi-ui/components/<name>\<close> instead.
\<close>

definition createComponent_A :: "env \<Rightarrow> string \<Rightarrow> world \<Rightarrow> world" where
  "createComponent_A e componentName w =
     snd (catch_m
       (bind_m (getPreference_A e w) (\<lambda>language w1.
        let extension = (if language = JStr ''javascript'' then ''jsx'' else ''tsx'');
            componentPath = path_join [cwd e, ''multi-ui'', ''components''];
            componentFile = componentPath @ ''/'' @ componentName @ ''.'' @ extension
        in
        bind_m (if \<not> existsSync componentPath w1 then mkdirSync_recursive componentPath w1
                else (Inr (), w1)) (\<lambda>u w2.
        bind_m (fetchComponentFromGitHub_A e componentName
                  (console_log [JStr (''Fetching '' @ componentName @ '' from GitHub...'')] w2))
          (\<lambda>componentCode w3.
        if language = JStr ''javascript'' then
          (let inputDir = path_join [cwd e, ''multi-ui'', ''components'', componentName];
               outputDir = path_join [cwd e, ''multi-ui'', ''components'', ''converted'']
           in convertTsxToJsx_A e inputDir outputDir
                (console_log [JStr (''Converting '' @ componentName @ '' to JavaScript...'')] w3))
        else
          bind_m (writeFileSync componentFile componentCode w3) (\<lambda>u w4.
          (Inr (), console_log [JStr (componentName @ '' created at '' @ componentFile)] w4))))))
       (\<lambda>err w1. (Inr (), console_error [JStr ''Error creating component:'', err] w1)))"

definition usage_A :: string where
  "usage_A = ''Usage:'' @ [CHR 0x0A]
     @ ''  npx multi-ui setup         - Set up the project'' @ [CHR 0x0A]
     @ ''  npx multi-ui add <ComponentName> - Create a new component''"

text \<open>
  \<open>main\<close>: \<open>createComponent\<close> is called only with a name that is present.  Nothing
  escapes \<open>setupProject\<close> or \<open>createComponent\<close>, so the run is \<open>main\<close> itself.
\<close>

definition main_A :: "env \<Rightarrow> string list \<Rightarrow> world \<Rightarrow> world" where
  "main_A e argv w =
     (let action = argv_action argv;
          componentName = argv_componentName argv
      in if action = Some ''setup'' then setupProject_A e w
         else if action = Some ''add'' \<and> truthy componentName
           then createComponent_A e (the componentName) w
         else console_log [JStr usage_A] w)"

subsection \<open>Variant B\<close>

definition CONFIG_FILE :: "env \<Rightarrow> string" where
  "CONFIG_FILE e = path_join [cwd e, ''multi-ui.config.json'']"

definition DEFAULT_COMPONENT_PATH :: string where
  "DEFAULT_COMPONENT_PATH = ''src/app/''"

text \<open>
  \<open>installBabelPresets\<close> runs the package installer; on failure the promise is
  rejected with a string, not with an error object.
\<close>

definition installBabelPresets :: "env \<Rightarrow> world \<Rightarrow> unit result \<times> world" where
  "installBabelPresets e w =
     (let w1 = emit (Exec ''npm install --save-dev @babel/preset-react @babel/preset-typescript'') w
      in case npm e of
           Some stderr \<Rightarrow> (Inl (JStr (''Error installing Babel presets: '' @ stderr)), w1)
         | None \<Rightarrow> (Inr (), w1))"

definition setupProject_B :: "env \<Rightarrow> world \<Rightarrow> world" where
  "setupProject_B e w =
     snd (catch_m
       (bind_m (answers e, emit Prompt w) (\<lambda>(language, directory) w1.
        let resolvedPath = path_join [directory, ''multi-ui'', ''components''];
            config = [(''language'', toLowerCase e language), (''componentPath'', resolvedPath)]
        in
        bind_m (writeFileSync (CONFIG_FILE e) (JStr (JSON_stringify config)) w1) (\<lambda>u w2.
        (Inr (), console_log
           [JStr (''Setup complete! Language: '' @ language @ '', Components Path: ''
              @ resolvedPath)] w2))))
       (\<lambda>err w1. (Inr (), console_error [JStr ''Setup failed:'', message err] w1)))"

definition getPreference_B :: "env \<Rightarrow> world \<Rightarrow> js_value result \<times> world" where
  "getPreference_B e w =
     (if existsSync (CONFIG_FILE e) w then
        bind_m (readFileSync (CONFIG_FILE e) w, w) (\<lambda>text w1.
        bind_m (JSON_parse text, w1) (\<lambda>config w2.
        (Inr config, w2)))
      else (Inr (JObj [(''language'', JStr ''typescript''),
                       (''componentPath'', JStr (DEFAULT_COMPONENT_PATH @ ''multi-ui/components''))]),
            console_warn
              [JStr ''No preference found. Defaulting to TypeScript and default folder structure.'']
              w))"

definition convertTsxToJsx_B :: "env \<Rightarrow> js_value \<Rightarrow> string \<Rightarrow> string result" where
  "convertTsxToJsx_B e tsxCode fileName = babel e tsxCode fileName"

text \<open>
  \<open>path.join(process.cwd(), componentPath)\<close> refuses an argument that is not a string.
\<close>

fun join_cwd :: "env \<Rightarrow> js_value \<Rightarrow> string result" where
  "join_cwd e (JStr componentPath) = Inr (path_join [cwd e, componentPath])"
| "join_cwd e v =
     Inl (JErr (TypeError (''The '' @ [CHR 0x22] @ ''path'' @ [CHR 0x22]
        @ '' argument must be of type string.'')))"

text \<open>
  \<open>createComponent\<close> of variant B: reading the preference and joining the directory
  happen before the \<open>try\<close>, so what they throw leaves the function; everything from
  \<open>ensureDirSync\<close> on is inside it, and the handler prints the message of what it caught.
\<close>

definition createComponent_B :: "env \<Rightarrow> string \<Rightarrow> world \<Rightarrow> unit result \<times> world" where
  "createComponent_B e componentName w =
     bind_m (getPreference_B e w) (\<lambda>config w1.
     bind_m (get_property config ''language'', w1) (\<lambda>language w2.
     bind_m (get_property config ''componentPath'', w2) (\<lambda>componentPath w3.
     let extension = (if language = JStr ''javascript'' then ''jsx'' else ''tsx'') in
     bind_m (join_cwd e componentPath, w3) (\<lambda>componentDir w4.
     catch_m
       (bind_m (ensureDirSync componentDir w4) (\<lambda>u w5.
        let componentFile = path_join [componentDir, componentName @ ''.'' @ extension] in
        bind_m (fetchComponentFromGitHub_B e componentName
                  (console_log [JStr (''Fetching '' @ componentName @ '' from GitHub...'')] w5))
          (\<lambda>componentCode w6.
        bind_m (if language = JStr ''javascript'' then
                  bind_m (convertTsxToJsx_B e componentCode (componentName @ ''.tsx''), w6)
                    (\<lambda>jsxCode w7. writeFileSync componentFile (JStr jsxCode) w7)
                else writeFileSync componentFile componentCode w6) (\<lambda>u w8.
        (Inr (), console_log [JStr (''Component created at: '' @ componentFile)] w8)))))
       (\<lambda>err w5. (Inr (), console_error [JStr ''Error creating component:'', message err] w5))))))"

definition usage_B :: string where
  "usage_B = [CHR 0x0A] @ ''Usage:'' @ [CHR 0x0A]
     @ ''  npx multi-ui setup          - Set up the project (choose language and path)''
     @ [CHR 0x0A]
     @ ''  npx multi-ui add <ComponentName> - Create a new component'' @ [CHR 0x0A]
     @ ''      ''"

definition main_B :: "env \<Rightarrow> string list \<Rightarrow> world \<Rightarrow> unit result \<times> world" where
  "main_B e argv w =
     (let action = argv_action argv;
          componentName = argv_componentName argv
      in if action = Some ''setup'' then
           bind_m (installBabelPresets e w) (\<lambda>u w1. (Inr (), setupProject_B e w1))
         else if action = Some ''add'' then
           (if \<not> truthy componentName then
              (Inr (), console_error
                 [JStr ''Please provide a component name. Usage: npx multi-ui add <ComponentName>'']
                 w)
            else createComponent_B e (the componentName) w)
         else (Inr (), console_log [JStr usage_B] w))"

text \<open>The run of variant B: \<open>main().catch(...)\<close> prints the message of what escaped.\<close>

definition run_B :: "env \<Rightarrow> string list \<Rightarrow> world \<Rightarrow> world" where
  "run_B e argv w =
     snd (catch_m (main_B e argv w)
       (\<lambda>err w1. (Inr (), console_error [JStr ''Unexpected error:'', message err] w1)))"

subsection \<open>Observations\<close>

text \<open>
  What the statements below observe of a run: whether the host answered 200, whether
  a path resolves to a directory, what was printed on standard output
  (\<open>console.log\<close>) and on standard error (\<open>console.warn\<close>, \<open>console.error\<close>), the
  commands executed and whether the prompt was shown.
\<close>

fun fetch_ok :: "http_outcome \<Rightarrow> bool" where
  "fetch_ok (Reply st txt body) = (st = 200)"
| "fetch_ok (NoReply m) = False"


fun stdout_lines :: "event list \<Rightarrow> js_value list list" where
  "stdout_lines [] = []"
| "stdout_lines (Console_log args # es) = args # stdout_lines es"
| "stdout_lines (ev # es) = stdout_lines es"

fun stderr_lines :: "event list \<Rightarrow> js_value list list" where
  "stderr_lines [] = []"
| "stderr_lines (Console_warn args # es) = args # stderr_lines es"
| "stderr_lines (Console_error args # es) = args # stderr_lines es"
| "stderr_lines (ev # es) = stderr_lines es"

fun executed :: "event list \<Rightarrow> string list" where
  "executed [] = []"
| "executed (Exec c # es) = c # executed es"
| "executed (ev # es) = executed es"


subsection \<open>A sample project\<close>

text \<open>
  A project at \<open>/proj\<close> with nothing in it, a host that serves one component text at
  every URL, a transform with a fixed output, and a user who answers the prompt with
  \<open>TypeScript\<close> and \<open>app/\<close>.  Every name in the samples is ASCII, so the engine's
  lowercasing is never consulted.
\<close>

definition sample_env :: env where
  "sample_env =
     \<lparr>cwd = ''/proj'',
      remote = (\<lambda>url. Reply 200 ''OK'' (JStr ''export default function Button(){}'')),
      babel = (\<lambda>code fileName. Inr ''export default function Button() {}''),
      answers = Inr (''TypeScript'', ''app/''),
      npm = None,
      unicode_lower = (\<lambda>s. s)\<rparr>"

definition fresh_world :: world where
  "fresh_world = \<lparr>files = [], dirs = [[''proj'']], events = []\<rparr>"

text \<open>
  The same project when the package installer fails, when a regular file named
  \<open>components\<close> lies in \<open>/proj/multi-ui\<close>, with an engine that lowercases the name
  \<open>Eclair_1\<close> written with an acute accent on its first letter (the bytes \<open>C3 89\<close>,
  in lower case \<open>C3 A9\<close>), when the user answers \<open>JavaScript\<close>, and when the host has
  no such file.
\<close>

definition failing_npm_env :: env where
  "failing_npm_env = sample_env\<lparr>npm := Some ''npm ERR! network''\<rparr>"


definition accent_env :: env where
  "accent_env = sample_env\<lparr>unicode_lower :=
     (\<lambda>s. if s = [CHR 0xC3, CHR 0x89] @ ''clair_1'' then [CHR 0xC3, CHR 0xA9] @ ''clair_1''
          else s)\<rparr>"

definition javascript_env :: env where
  "javascript_env = sample_env\<lparr>answers := Inr (''JavaScript'', ''app/'')\<rparr>"

definition missing_env :: env where
  "missing_env = sample_env\<lparr>remote := (\<lambda>url. Reply 404 ''Not Found'' (JStr ''404: Not Found''))\<rparr>"

section \<open>Properties\<close>

subsection \<open>Strings\<close>

lemma js_split_not_Nil: "js_split sep s \<noteq> []"
  by (induction s) (auto split: list.splits)

lemma template_first_js_split:
  "template_first (js_split sep s) = takeWhile (\<lambda>c. c \<noteq> sep) s"
proof (induction s)
  case Nil
  show ?case by simp
next
  case (Cons c cs)
  show ?case
  proof (cases "c = sep")
    case True
    then show ?thesis by simp
  next
    case False
    obtain p ps where sp: "js_split sep cs = p # ps"
      using js_split_not_Nil [of sep cs] by (cases "js_split sep cs") auto
    with Cons False show ?thesis by simp
  qed
qed

lemma takeWhile_no_sep: "sep \<notin> set s \<Longrightarrow> takeWhile (\<lambda>c. c \<noteq> sep) s = s"
  by (induction s) auto

lemma requests_append: "requests (es @ fs) = requests es @ requests fs"
  by (induction es rule: requests.induct) auto

lemma requests_axios_get:
  "requests (events (snd (axios_get e url w))) = requests (events w) @ [url]"
  by (simp add: axios_get_def emit_def requests_append Let_def split: http_outcome.splits)

lemma lower_char_underscore: "lower_char c = CHR ''_'' \<longleftrightarrow> c = CHR ''_''"
  by (simp add: lower_char_def split: if_splits)

lemma map_lower_char_no_underscore:
  "CHR ''_'' \<notin> set N \<Longrightarrow> CHR ''_'' \<notin> set (map lower_char N)"
  by (induction N) (simp_all add: lower_char_underscore eq_commute [of "CHR ''_''"])

lemma toLowerCase_no_underscore:
  assumes "CHR ''_'' \<notin> set N" and "ascii N \<or> CHR ''_'' \<notin> set (unicode_lower e N)"
  shows "CHR ''_'' \<notin> set (toLowerCase e N)"
  using assms map_lower_char_no_underscore [of N] by (auto simp: toLowerCase_def)

subsection \<open>Sequencing\<close>

lemma bind_m_simps [simp]:
  "bind_m (Inl err, w) f = (Inl err, w)"
  "bind_m (Inr x, w) f = f x w"
  by (simp_all add: bind_m_def)

lemma catch_m_simps [simp]:
  "catch_m (Inl err, w) h = h err w"
  "catch_m (Inr x, w) h = (Inr x, w)"
  by (simp_all add: catch_m_def)

lemma bind_m_preserves:
  assumes "P (snd m)" and "\<And>x. fst m = Inr x \<Longrightarrow> P (snd (f x (snd m)))"
  shows "P (snd (bind_m m f))"
  using assms by (cases m; cases "fst m") auto

lemma catch_m_preserves:
  assumes "P (snd m)" and "\<And>err. fst m = Inl err \<Longrightarrow> P (snd (h err (snd m)))"
  shows "P (snd (catch_m m h))"
  using assms by (cases m; cases "fst m") auto

subsection \<open>The file system\<close>

lemma walk_cong:
  "dirs w' = dirs w \<Longrightarrow> files w' = files w \<Longrightarrow> walk w' cur ss = walk w cur ss"
  by (induction ss arbitrary: cur) (simp_all add: isDir_def isFile_def)

lemma emit_fields [simp]:
  "files (emit ev w) = files w" "dirs (emit ev w) = dirs w" "events (emit ev w) = events w @ [ev]"
  by (simp_all add: emit_def)

lemma console_fields [simp]:
  "files (console_log a w) = files w" "dirs (console_log a w) = dirs w"
  "events (console_log a w) = events w @ [Console_log a]"
  "files (console_warn a w) = files w" "dirs (console_warn a w) = dirs w"
  "events (console_warn a w) = events w @ [Console_warn a]"
  "files (console_error a w) = files w" "dirs (console_error a w) = dirs w"
  "events (console_error a w) = events w @ [Console_error a]"
  by (simp_all add: console_log_def console_warn_def console_error_def)

lemma resolve_cong:
  "dirs w' = dirs w \<Longrightarrow> files w' = files w \<Longrightarrow> resolve w' p = resolve w p"
  by (simp add: resolve_def walk_cong [of w' w])

lemma isDir_cong: "dirs w' = dirs w \<Longrightarrow> isDir w' p = isDir w p"
  by (simp add: isDir_def)

lemma isFile_cong: "files w' = files w \<Longrightarrow> isFile w' p = isFile w p"
  by (simp add: isFile_def)

lemma existsSync_cong:
  "dirs w' = dirs w \<Longrightarrow> files w' = files w \<Longrightarrow> existsSync p w' = existsSync p w"
  by (simp add: existsSync_def resolve_cong [of w' w] isDir_def isFile_def split: sum.splits)

lemma readFileSync_cong:
  "dirs w' = dirs w \<Longrightarrow> files w' = files w \<Longrightarrow> readFileSync p w' = readFileSync p w"
  by (simp add: readFileSync_def resolve_cong [of w' w] isDir_def split: sum.splits option.splits)


lemma walk_dirs_only:
  "dirs w' = dirs w \<Longrightarrow> walk w cur ss = Inr t \<Longrightarrow> walk w' cur ss = Inr t"
proof (induction ss arbitrary: cur)
  case Nil
  then show ?case by simp
next
  case (Cons s ss)
  have d: "isDir w cur"
  proof (rule ccontr)
    assume "\<not> isDir w cur"
    with Cons.prems(2) show False by simp
  qed
  then have d': "isDir w' cur" using Cons.prems(1) by (simp add: isDir_def)
  consider (skip) "s = [] \<or> s = ''.''" | (up) "s = ''..''" | (down) "s \<noteq> []" "s \<noteq> ''.''" "s \<noteq> ''..''"
    by blast
  then show ?case
  proof cases
    case skip
    with Cons.prems(2) d have "walk w cur ss = Inr t" by simp
    from Cons.IH [OF Cons.prems(1) this] skip d' show ?thesis by simp
  next
    case up
    with Cons.prems(2) d have "walk w (butlast cur) ss = Inr t" by simp
    from Cons.IH [OF Cons.prems(1) this] up d' show ?thesis by simp
  next
    case down
    with Cons.prems(2) d have "walk w (cur @ [s]) ss = Inr t" by simp
    from Cons.IH [OF Cons.prems(1) this] down d' show ?thesis by simp
  qed
qed

lemma mkwalk_frame:
  "mkwalk w cur ss = Inr w2 \<Longrightarrow>
     files w2 = files w \<and> events w2 = events w \<and> set (dirs w) \<subseteq> set (dirs w2)"
proof (induction ss arbitrary: w cur)
  case Nil
  then show ?case by simp
next
  case (Cons s ss)
  consider (skip) "s = [] \<or> s = ''.''" | (up) "s = ''..''" | (down) "s \<noteq> []" "s \<noteq> ''.''" "s \<noteq> ''..''"
    by blast
  then show ?case
  proof cases
    case skip
    with Cons.prems have "mkwalk w cur ss = Inr w2" by simp
    from Cons.IH [OF this] show ?thesis .
  next
    case up
    with Cons.prems have "mkwalk w (butlast cur) ss = Inr w2" by simp
    from Cons.IH [OF this] show ?thesis .
  next
    case down
    let ?w1 = "w\<lparr>dirs := List.insert (cur @ [s]) (dirs w)\<rparr>"
    have nf: "\<not> isFile w (cur @ [s])"
    proof
      assume "isFile w (cur @ [s])"
      with Cons.prems down show False by simp
    qed
    with Cons.prems down have "mkwalk ?w1 (cur @ [s]) ss = Inr w2" by simp
    from Cons.IH [OF this] show ?thesis by auto
  qed
qed




lemma mkdirSync_recursive_files:
  "files (snd (mkdirSync_recursive p w)) = files w"
proof (cases "mkwalk (emit (Fs_mkdir p) w) [] (js_split (CHR ''/'') p)")
  case (Inl code)
  then show ?thesis by (simp add: mkdirSync_recursive_def Let_def emit_def)
next
  case (Inr w2)
  from mkwalk_frame [OF Inr] Inr show ?thesis by (simp add: mkdirSync_recursive_def Let_def emit_def)
qed

subsection \<open>JSON: what is written is read back\<close>

lemma hex_value_hex_digit: "k < 16 \<Longrightarrow> hex_value (hex_digit k) = Some k"
proof -
  assume "k < 16"
  have "list_all (\<lambda>k. hex_value (hex_digit k) = Some k) [0..<16]"
    by code_simp
  moreover have "k \<in> set [0..<16]" using \<open>k < 16\<close> by simp
  ultimately show ?thesis by (simp only: list_all_iff)
qed

lemma hex4_control:
  assumes "n < 32"
  shows "hex4 (CHR ''0'' # CHR ''0'' # hex_digit (n div 16) # hex_digit n # rest) = Some n"
proof -
  have a: "hex_value (hex_digit (n div 16)) = Some (n div 16)"
    using assms by (intro hex_value_hex_digit) simp
  have "hex_digit n = hex_digit (n mod 16)" by (simp add: hex_digit_def)
  then have b: "hex_value (hex_digit n) = Some (n mod 16)"
    by (simp add: hex_value_hex_digit)
  have z: "hex_value (CHR ''0'') = Some 0" by (simp add: hex_value_def)
  show ?thesis using a b z by simp
qed

lemma parse_escape_char:
  "parse_string_chars (json_escape_char c @ rest) =
     map_option (\<lambda>(t, r). (c # t, r)) (parse_string_chars rest)"
proof -
  consider (quote) "c = CHR 0x22" | (backslash) "c = CHR 0x5C"
    | (short) "c \<in> {CHR 0x08, CHR 0x09, CHR 0x0A, CHR 0x0C, CHR 0x0D}"
    | (control) "c \<notin> {CHR 0x22, CHR 0x5C, CHR 0x08, CHR 0x09, CHR 0x0A, CHR 0x0C, CHR 0x0D}"
        "(of_char c :: nat) < 32"
    | (plain) "c \<notin> {CHR 0x22, CHR 0x5C, CHR 0x08, CHR 0x09, CHR 0x0A, CHR 0x0C, CHR 0x0D}"
        "\<not> (of_char c :: nat) < 32"
    by blast
  then show ?thesis
  proof cases
    case quote
    then show ?thesis by (simp add: json_escape_char_def simple_escape_def)
  next
    case backslash
    then show ?thesis by (simp add: json_escape_char_def simple_escape_def)
  next
    case short
    then show ?thesis by (auto simp: json_escape_char_def simple_escape_def)
  next
    case control
    have enc: "utf8_encode (of_char c) = [c]"
      using control(2) by (simp add: utf8_encode_def)
    have h: "hex4 (CHR ''0'' # CHR ''0'' # hex_digit (of_char c div 16) # hex_digit (of_char c) # rest)
        = Some (of_char c)"
      by (rule hex4_control [OF control(2)])
    from control have esc: "json_escape_char c =
        [CHR 0x5C, CHR ''u'', CHR ''0'', CHR ''0'', hex_digit (of_char c div 16), hex_digit (of_char c)]"
      by (simp add: json_escape_char_def)
    show ?thesis
      using control(2) by (simp add: esc h enc del: hex4.simps)
  next
    case plain
    then show ?thesis by (simp add: json_escape_char_def)
  qed
qed

lemma parse_string_chars_escaped:
  "parse_string_chars (concat (map json_escape_char s) @ CHR 0x22 # rest) = Some (s, rest)"
  by (induction s) (simp_all add: parse_escape_char)

lemma skip_ws_prefix:
  "list_all is_ws pre \<Longrightarrow> \<not> is_ws c \<Longrightarrow> skip_ws (pre @ c # x) = c # x"
  by (simp add: skip_ws_def list_all_iff dropWhile_append2)

lemma parse_json_quoted:
  "list_all is_ws pre \<Longrightarrow> parse_json PValue (pre @ json_quote s @ rest) = Some (JStr s, rest)"
  by (subst parse_json.simps(1))
     (simp add: json_quote_def skip_ws_prefix is_ws_def parse_string_chars_escaped)


lemma length_json_quote: "2 \<le> length (json_quote s)"
  by (simp add: json_quote_def)

lemma parse_member_more:
  assumes "list_all is_ws pre"
  shows "parse_json (PMembers acc) (pre @ json_quote k @ '': '' @ json_quote v @ CHR '','' # xs) =
     parse_json (PMembers (acc @ [(k, JStr v)])) xs"
proof -
  have v: "parse_json PValue ('' '' @ json_quote v @ CHR '','' # xs) = Some (JStr v, CHR '','' # xs)"
    by (rule parse_json_quoted) (simp add: is_ws_def)
  have q: "json_quote k @ '': '' @ json_quote v @ CHR '','' # xs =
      CHR 0x22 # concat (map json_escape_char k) @ CHR 0x22 # CHR '':'' # '' '' @ json_quote v @ CHR '','' # xs"
    by (simp add: json_quote_def)
  show ?thesis
    apply (subst parse_json.simps(3))
    apply (simp only: q)
    apply (simp add: skip_ws_prefix [OF assms] is_ws_def parse_string_chars_escaped)
    apply (simp add: skip_ws_def is_ws_def)
    using v apply (simp add: skip_ws_def is_ws_def)
    done
qed


lemma parse_member_last:
  assumes "list_all is_ws pre"
  shows "parse_json (PMembers acc) (pre @ json_quote k @ '': '' @ json_quote v @ [CHR 0x0A, CHR ''}''] @ xs) =
     Some (JObj (acc @ [(k, JStr v)]), xs)"
proof -
  have v: "parse_json PValue ('' '' @ json_quote v @ CHR 0x0A # CHR ''}'' # xs) =
      Some (JStr v, CHR 0x0A # CHR ''}'' # xs)"
    by (rule parse_json_quoted) (simp add: is_ws_def)
  have q: "json_quote k @ '': '' @ json_quote v @ [CHR 0x0A, CHR ''}''] @ xs =
      CHR 0x22 # concat (map json_escape_char k) @ CHR 0x22 # CHR '':'' # '' '' @ json_quote v
        @ CHR 0x0A # CHR ''}'' # xs"
    by (simp add: json_quote_def)
  show ?thesis
    apply (subst parse_json.simps(3))
    apply (simp only: q)
    apply (simp add: skip_ws_prefix [OF assms] is_ws_def parse_string_chars_escaped)
    apply (simp add: skip_ws_def is_ws_def)
    using v apply (simp add: skip_ws_def is_ws_def)
    done
qed

lemma parse_json_object:
  assumes "skip_ws cs = CHR 0x22 # ds"
  shows "parse_json PValue (CHR ''{'' # cs) = parse_json (PMembers []) (CHR 0x22 # ds)"
proof -
  have "skip_ws (CHR ''{'' # cs) = CHR ''{'' # cs" by (simp add: skip_ws_def is_ws_def)
  then show ?thesis
    by (subst parse_json.simps(1)) (simp add: assms)
qed

lemma JSON_roundtrip_config:
  "JSON_parse (JSON_stringify [(''language'', l), (''componentPath'', p)]) =
     Inr (JObj [(''language'', JStr l), (''componentPath'', JStr p)])"
proof -
  let ?m2 = "json_quote ''componentPath'' @ '': '' @ json_quote p @ [CHR 0x0A, CHR ''}''] @ []"
  let ?m1 = "json_quote ''language'' @ '': '' @ json_quote l @ CHR '','' # [CHR 0x0A, CHR '' '', CHR '' ''] @ ?m2"
  have shape: "JSON_stringify [(''language'', l), (''componentPath'', p)] =
      CHR ''{'' # [CHR 0x0A, CHR '' '', CHR '' ''] @ ?m1"
    by (simp add: JSON_stringify_def json_member_def)
  have two: "parse_json (PMembers [(''language'', JStr l)]) ([CHR 0x0A, CHR '' '', CHR '' ''] @ ?m2) =
      Some (JObj [(''language'', JStr l), (''componentPath'', JStr p)], [])"
    using parse_member_last [of "[CHR 0x0A, CHR '' '', CHR '' '']" "[(''language'', JStr l)]"
        "''componentPath''" p "[]"]
    by (simp add: is_ws_def)
  have one: "parse_json (PMembers []) ?m1 =
      Some (JObj [(''language'', JStr l), (''componentPath'', JStr p)], [])"
    using two parse_member_more [of "[]" "[]" "''language''" l "[CHR 0x0A, CHR '' '', CHR '' ''] @ ?m2"]
    by simp
  have first: "?m1 = CHR 0x22 # tl ?m1" by (simp add: json_quote_def)
  have sk: "skip_ws ([CHR 0x0A, CHR '' '', CHR '' ''] @ ?m1) = CHR 0x22 # tl ?m1"
    using skip_ws_prefix [of "[CHR 0x0A, CHR '' '', CHR '' '']" "CHR 0x22" "tl ?m1"] first
    by (simp add: is_ws_def)
  have "parse_json PValue (CHR ''{'' # [CHR 0x0A, CHR '' '', CHR '' ''] @ ?m1) =
      parse_json (PMembers []) (CHR 0x22 # tl ?m1)"
    by (rule parse_json_object [OF sk])
  also have "\<dots> = parse_json (PMembers []) ?m1"
    using first by simp
  finally have pv: "parse_json PValue (CHR ''{'' # [CHR 0x0A, CHR '' '', CHR '' ''] @ ?m1) =
      parse_json (PMembers []) ?m1" .
  show ?thesis
    unfolding JSON_parse_def shape pv one by (simp add: skip_ws_def)
qed

lemma JSON_roundtrip_language:
  "JSON_parse (JSON_stringify [(''language'', l)]) = Inr (JObj [(''language'', JStr l)])"
proof -
  let ?m1 = "json_quote ''language'' @ '': '' @ json_quote l @ [CHR 0x0A, CHR ''}''] @ []"
  have shape: "JSON_stringify [(''language'', l)] = CHR ''{'' # [CHR 0x0A, CHR '' '', CHR '' ''] @ ?m1"
    by (simp add: JSON_stringify_def json_member_def)
  have one: "parse_json (PMembers []) ?m1 = Some (JObj [(''language'', JStr l)], [])"
    using parse_member_last [of "[]" "[]" "''language''" l "[]"] by simp
  have first: "?m1 = CHR 0x22 # tl ?m1" by (simp add: json_quote_def)
  have sk: "skip_ws ([CHR 0x0A, CHR '' '', CHR '' ''] @ ?m1) = CHR 0x22 # tl ?m1"
    using skip_ws_prefix [of "[CHR 0x0A, CHR '' '', CHR '' '']" "CHR 0x22" "tl ?m1"] first
    by (simp add: is_ws_def)
  have "parse_json PValue (CHR ''{'' # [CHR 0x0A, CHR '' '', CHR '' ''] @ ?m1) =
      parse_json (PMembers []) (CHR 0x22 # tl ?m1)"
    by (rule parse_json_object [OF sk])
  also have "\<dots> = parse_json (PMembers []) ?m1"
    using first by simp
  finally have pv: "parse_json PValue (CHR ''{'' # [CHR 0x0A, CHR '' '', CHR '' ''] @ ?m1) =
      parse_json (PMembers []) ?m1" .
  show ?thesis
    unfolding JSON_parse_def shape pv one by (simp add: skip_ws_def)
qed

subsection \<open>The request of a fetch\<close>

lemma requests_fetch_A:
  "requests (events (snd (fetchComponentFromGitHub_A e N w))) =
     requests (events w) @ [component_url_A e N]"
  using requests_axios_get [of e "component_url_A e N" w]
  by (cases "axios_get e (component_url_A e N) w")
     (auto simp: fetchComponentFromGitHub_A_def console_error_def emit_def requests_append
        Let_def split: sum.splits)

lemma requests_fetch_B:
  "requests (events (snd (fetchComponentFromGitHub_B e N w))) =
     requests (events w) @ [component_url_B e N]"
  using requests_axios_get [of e "component_url_B e N" w]
  by (cases "axios_get e (component_url_B e N) w")
     (auto simp: fetchComponentFromGitHub_B_def Let_def split: sum.splits)

text \<open>
  Claim C3.  A fetch of the component \<open>N\<close> issues exactly one request, in both
  variants, and its URL is the host, the repository \<open>om0852/multi-ui\<close>, the branch
  \<open>main\<close>, the components path (\<open>src/app\<close> in variant A, \<open>app\<close> in variant B), the
  base name, \<open>_components\<close> and \<open>N.tsx\<close>.  The base name is the lowercased name up to
  its first underscore.  It is the whole lowercased name when \<open>N\<close> has no underscore
  and lowercasing brings none in: always for an ASCII name, and for any other name
  whenever the engine's lowercasing of it has none.
\<close>

theorem fetch_requests_component_url:
  "requests (events (snd (fetchComponentFromGitHub_A e N w))) =
     requests (events w) @
       [''https://raw.githubusercontent.com/om0852/multi-ui/main/src/app/''
          @ takeWhile (\<lambda>c. c \<noteq> CHR ''_'') (toLowerCase e N) @ ''/_components/'' @ N @ ''.tsx'']
   \<and> requests (events (snd (fetchComponentFromGitHub_B e N w))) =
     requests (events w) @
       [''https://raw.githubusercontent.com/om0852/multi-ui/main/app/''
          @ takeWhile (\<lambda>c. c \<noteq> CHR ''_'') (toLowerCase e N) @ ''/_components/'' @ N @ ''.tsx'']
   \<and> (CHR ''_'' \<notin> set N \<and> (ascii N \<or> CHR ''_'' \<notin> set (unicode_lower e N)) \<longrightarrow>
        takeWhile (\<lambda>c. c \<noteq> CHR ''_'') (toLowerCase e N) = toLowerCase e N)"
proof -
  have "takeWhile (\<lambda>c. c \<noteq> CHR ''_'') (toLowerCase e N) = toLowerCase e N"
    if "CHR ''_'' \<notin> set N" and "ascii N \<or> CHR ''_'' \<notin> set (unicode_lower e N)"
    using toLowerCase_no_underscore [OF that] by (simp add: takeWhile_no_sep)
  then show ?thesis
    by (simp add: requests_fetch_A requests_fetch_B component_url_A_def component_url_B_def
          componentBaseName_def GITHUB_REPO_def COMPONENTS_PATH_def template_first_js_split)
qed

theorem fetch_requests_component_url_witness:
  "CHR ''_'' \<notin> set ''Accordion'' \<and> ascii ''Accordion''
   \<and> toLowerCase sample_env ''Accordion'' = ''accordion''
   \<and> requests (events (snd (fetchComponentFromGitHub_B sample_env ''Accordion'' fresh_world))) =
       [''https://raw.githubusercontent.com/om0852/multi-ui/main/app/accordion/_components/Accordion.tsx'']
   \<and> requests (events (snd (fetchComponentFromGitHub_A sample_env ''Dropdown_5'' fresh_world))) =
       [''https://raw.githubusercontent.com/om0852/multi-ui/main/src/app/dropdown/_components/Dropdown_5.tsx'']
   \<and> \<not> ascii ([CHR 0xC3, CHR 0x89] @ ''clair_1'')
   \<and> requests (events (snd (fetchComponentFromGitHub_B accent_env
         ([CHR 0xC3, CHR 0x89] @ ''clair_1'') fresh_world))) =
       [''https://raw.githubusercontent.com/om0852/multi-ui/main/app/'' @ [CHR 0xC3, CHR 0xA9]
          @ ''clair/_components/'' @ [CHR 0xC3, CHR 0x89] @ ''clair_1.tsx'']"
proof -
  have h: "CHR ''_'' \<notin> set ''Accordion''" "ascii ''Accordion''" by code_simp+
  have l1: "toLowerCase sample_env ''Accordion'' = ''accordion''" by code_simp
  have l2: "takeWhile (\<lambda>c. c \<noteq> CHR ''_'') (toLowerCase sample_env ''Dropdown_5'') = ''dropdown''"
    by code_simp
  have l3: "takeWhile (\<lambda>c. c \<noteq> CHR ''_'')
      (toLowerCase accent_env ([CHR 0xC3, CHR 0x89] @ ''clair_1'')) = [CHR 0xC3, CHR 0xA9] @ ''clair''"
    by code_simp
  have n: "\<not> ascii ([CHR 0xC3, CHR 0x89] @ ''clair_1'')" by code_simp
  have f: "events fresh_world = []" by (simp add: fresh_world_def)
  from fetch_requests_component_url [of sample_env "''Accordion''" fresh_world]
    fetch_requests_component_url [of sample_env "''Dropdown_5''" fresh_world]
    fetch_requests_component_url [of accent_env "[CHR 0xC3, CHR 0x89] @ ''clair_1''" fresh_world]
    h l1 n
  show ?thesis unfolding l2 l3 f by simp
qed

subsection \<open>The command line\<close>

text \<open>
  Claim C8, as stated, fails in variant B: \<open>add\<close> without a component name prints
  nothing on standard output and one line on standard error.
\<close>
theorem add_without_name_B_counterexample:
  "stdout_lines (events (run_B sample_env [''add''] fresh_world)) = []
   \<and> stderr_lines (events (run_B sample_env [''add''] fresh_world)) =
       [[JStr ''Please provide a component name. Usage: npx multi-ui add <ComponentName>'']]"
  by (simp add: run_B_def main_B_def argv_action_def argv_componentName_def console_error_def
        emit_def fresh_world_def)

text \<open>
  Claim C8, amended.  An invocation that is neither \<open>setup\<close> nor \<open>add\<close> with a name
  prints the usage text with \<open>console.log\<close> and does nothing else, in variant A always
  and in variant B when the action is not \<open>add\<close>; variant B answers \<open>add\<close> without a name
  with one \<open>console.error\<close> line and does nothing else.
\<close>

theorem usage_for_other_invocations:
  assumes "argv_action argv \<noteq> Some ''setup''"
    and "\<not> (argv_action argv = Some ''add'' \<and> truthy (argv_componentName argv))"
  shows "main_A e argv w = console_log [JStr usage_A] w
    \<and> (argv_action argv \<noteq> Some ''add'' \<longrightarrow> run_B e argv w = console_log [JStr usage_B] w)
    \<and> (argv_action argv = Some ''add'' \<longrightarrow>
         run_B e argv w = console_error
           [JStr ''Please provide a component name. Usage: npx multi-ui add <ComponentName>''] w)"
  using assms by (auto simp: main_A_def run_B_def main_B_def Let_def)

theorem usage_for_other_invocations_witness:
  "main_A sample_env [] fresh_world = console_log [JStr usage_A] fresh_world
   \<and> run_B sample_env [''help''] fresh_world = console_log [JStr usage_B] fresh_world
   \<and> main_A sample_env [''add''] fresh_world = console_log [JStr usage_A] fresh_world
   \<and> run_B sample_env [''add'', ''''] fresh_world = console_error
        [JStr ''Please provide a component name. Usage: npx multi-ui add <ComponentName>'']
        fresh_world"
  using usage_for_other_invocations [of "[]" sample_env fresh_world]
    usage_for_other_invocations [of "[''help'']" sample_env fresh_world]
    usage_for_other_invocations [of "[''add'']" sample_env fresh_world]
    usage_for_other_invocations [of "[''add'', '''']" sample_env fresh_world]
  by (simp add: argv_action_def argv_componentName_def)

lemma executed_append: "executed (es @ fs) = executed es @ executed fs"
  by (induction es rule: executed.induct) auto

text \<open>
  Claim C7, as stated, fails in variant B, the variant that runs the installer: when
  the installer fails, the run ends with the installer's command and one error line;
  the prompt is never shown and no preference is written.
\<close>

theorem failed_install_blocks_setup_counterexample:
  "run_B failing_npm_env [''setup''] fresh_world =
     \<lparr>files = [], dirs = [[''proj'']],
      events = [Exec ''npm install --save-dev @babel/preset-react @babel/preset-typescript'',
                Console_error [JStr ''Unexpected error:'', JUndefined]]\<rparr>"
  by (simp add: run_B_def main_B_def argv_action_def installBabelPresets_def failing_npm_env_def
        sample_env_def console_error_def emit_def fresh_world_def)

lemma executed_writeFileSync:
  "executed (events (snd (writeFileSync p c w))) = executed (events w)"
  by (auto simp: writeFileSync_def emit_def executed_append Let_def split: js_value.splits sum.splits)

lemma executed_setupProject_A:
  "executed (events (setupProject_A e w)) = executed (events w)"
proof (cases "answers e")
  case (Inl err)
  then show ?thesis
    by (simp add: setupProject_A_def console_error_def emit_def executed_append)
next
  case (Inr a)
  obtain language directory where a: "a = (language, directory)" by (cases a)
  let ?w1 = "emit Prompt w"
  let ?wr = "writeFileSync (preferenceFile e) (JStr (JSON_stringify [(''language'', toLowerCase e language)])) ?w1"
  have ex: "executed (events (snd ?wr)) = executed (events w)"
    by (simp add: executed_writeFileSync emit_def executed_append)
  show ?thesis
    using ex Inr a
    by (cases ?wr; cases "fst ?wr")
       (auto simp: setupProject_A_def console_error_def console_log_def emit_def executed_append)
qed

text \<open>
  Claim C7, amended.  In variant B a failure of the installation step is reported by
  the handler of the run (\<open>Unexpected error:\<close> with an undefined message, since the step
  rejects with a string) and nothing else of \<open>setup\<close> happens; when the step succeeds
  \<open>setup\<close> goes on with the prompt and the write.  Variant A runs \<open>setupProject\<close> at
  once and executes no command.
\<close>

theorem failed_install_blocks_setup:
  "(npm e = Some stderr \<longrightarrow>
      run_B e (''setup'' # rest) w =
        console_error [JStr ''Unexpected error:'', JUndefined]
          (emit (Exec ''npm install --save-dev @babel/preset-react @babel/preset-typescript'') w))
   \<and> (npm e = None \<longrightarrow>
      run_B e (''setup'' # rest) w =
        setupProject_B e
          (emit (Exec ''npm install --save-dev @babel/preset-react @babel/preset-typescript'') w))
   \<and> main_A e (''setup'' # rest) w = setupProject_A e w
   \<and> executed (events (main_A e (''setup'' # rest) w)) = executed (events w)"
  by (simp add: run_B_def main_B_def main_A_def argv_action_def installBabelPresets_def
        executed_setupProject_A)


theorem failed_install_blocks_setup_witness:
  "npm failing_npm_env = Some ''npm ERR! network''
   \<and> run_B failing_npm_env [''setup''] fresh_world =
       console_error [JStr ''Unexpected error:'', JUndefined]
         (emit (Exec ''npm install --save-dev @babel/preset-react @babel/preset-typescript'')
            fresh_world)
   \<and> npm sample_env = None
   \<and> run_B sample_env [''setup''] fresh_world =
       setupProject_B sample_env
         (emit (Exec ''npm install --save-dev @babel/preset-react @babel/preset-typescript'')
            fresh_world)"
  using failed_install_blocks_setup [of failing_npm_env "''npm ERR! network''" "[]" fresh_world]
    failed_install_blocks_setup [of sample_env "''x''" "[]" fresh_world]
  by (simp add: failing_npm_env_def sample_env_def)

subsection \<open>Failed fetches\<close>

lemma js_includes_append_right: "js_includes s t \<Longrightarrow> js_includes (a @ s) t"
  by (induction a) auto

lemma js_includes_prefix: "js_includes (t @ b) t"
proof (cases "t @ b")
  case Nil
  then show ?thesis by simp
next
  case (Cons c cs)
  have "prefix t (t @ b)" by simp
  with Cons show ?thesis by simp
qed

lemma js_includes_mid: "js_includes (a @ t @ b) t"
  by (simp add: js_includes_append_right js_includes_prefix)

lemma files_getPreference_B: "files (snd (getPreference_B e w)) = files w"
  unfolding getPreference_B_def
  by (auto intro!: bind_m_preserves [where P = "\<lambda>w'. files w' = files w"])

lemma files_getPreference_A: "files (snd (getPreference_A e w)) = files w"
  unfolding getPreference_A_def
  by (auto intro!: bind_m_preserves [where P = "\<lambda>w'. files w' = files w"])

lemma fetch_B_failed:
  assumes "\<not> fetch_ok (remote e (component_url_B e N))"
  shows "\<exists>err. fetchComponentFromGitHub_B e N w = (Inl err, emit (Http_get (component_url_B e N)) w)"
proof (cases "remote e (component_url_B e N)")
  case (Reply st reason body)
  with assms have "st \<noteq> 200" by simp
  with Reply show ?thesis
    by (simp add: fetchComponentFromGitHub_B_def axios_get_def Let_def)
next
  case (NoReply m)
  then show ?thesis
    by (simp add: fetchComponentFromGitHub_B_def axios_get_def Let_def)
qed

lemma fetch_A_failed:
  assumes "\<not> fetch_ok (remote e (component_url_A e N))"
  shows "\<exists>err. fetchComponentFromGitHub_A e N w =
     (Inl err, console_error [JStr ''Error fetching component from GitHub:'', message err]
        (emit (Http_get (component_url_A e N)) w))"
proof (cases "remote e (component_url_A e N)")
  case (Reply st reason body)
  with assms have "st \<noteq> 200" by simp
  with Reply show ?thesis
    by (simp add: fetchComponentFromGitHub_A_def axios_get_def Let_def)
next
  case (NoReply m)
  then show ?thesis
    by (simp add: fetchComponentFromGitHub_A_def axios_get_def Let_def)
qed

lemma files_createComponent_B_failed:
  assumes "\<not> fetch_ok (remote e (component_url_B e N))"
  shows "files (snd (createComponent_B e N w)) = files w"
proof -
  have body: "files (snd (catch_m
       (bind_m (ensureDirSync d w4) (\<lambda>u w5.
        bind_m (fetchComponentFromGitHub_B e N (console_log a w5)) (g w5)))
       (\<lambda>err w5. (Inr (), console_error [JStr ''Error creating component:'', message err] w5))))
     = files w4" for d w4 a and g :: "world \<Rightarrow> js_value \<Rightarrow> world \<Rightarrow> unit result \<times> world"
  proof (cases "ensureDirSync d w4")
    case (Pair r w5)
    have f5: "files w5 = files w4"
      using mkdirSync_recursive_files [of d w4] Pair by (simp add: ensureDirSync_def)
    show ?thesis
    proof (cases r)
      case (Inl err)
      with Pair f5 show ?thesis by simp
    next
      case (Inr u)
      from fetch_B_failed [OF assms, of "console_log a w5"] obtain err where
        "fetchComponentFromGitHub_B e N (console_log a w5) =
           (Inl err, emit (Http_get (component_url_B e N)) (console_log a w5))" ..
      with Pair Inr f5 show ?thesis by simp
    qed
  qed
  show ?thesis
    unfolding createComponent_B_def Let_def
    apply (rule bind_m_preserves [where P = "\<lambda>w'. files w' = files w"])
     apply (simp add: files_getPreference_B)
    apply (rule bind_m_preserves [where P = "\<lambda>w'. files w' = files w"])
     apply (simp add: files_getPreference_B)
    apply (rule bind_m_preserves [where P = "\<lambda>w'. files w' = files w"])
     apply (simp add: files_getPreference_B)
    apply (rule bind_m_preserves [where P = "\<lambda>w'. files w' = files w"])
     apply (simp add: files_getPreference_B)
    apply (simp add: body files_getPreference_B)
    done
qed


lemma files_createComponent_A_failed:
  assumes "\<not> fetch_ok (remote e (component_url_A e N))"
  shows "files (createComponent_A e N w) = files w"
proof -
  have fetch: "files (snd (bind_m (fetchComponentFromGitHub_A e N w2) g)) = files w2"
    for w2 and g :: "js_value \<Rightarrow> world \<Rightarrow> unit result \<times> world"
  proof -
    from fetch_A_failed [OF assms, of w2] obtain err where
      "fetchComponentFromGitHub_A e N w2 =
         (Inl err, console_error [JStr ''Error fetching component from GitHub:'', message err]
            (emit (Http_get (component_url_A e N)) w2))" ..
    then show ?thesis by simp
  qed
  have inner: "files (snd (bind_m (getPreference_A e w) (\<lambda>language w1.
        bind_m (if c w1 then mkdirSync_recursive d w1 else (Inr (), w1)) (\<lambda>u w2.
        bind_m (fetchComponentFromGitHub_A e N (console_log a w2)) (g language))))) = files w"
    for c d a and g :: "js_value \<Rightarrow> js_value \<Rightarrow> world \<Rightarrow> unit result \<times> world"
    apply (rule bind_m_preserves [where P = "\<lambda>w'. files w' = files w"])
     apply (simp add: files_getPreference_A)
    apply (rule bind_m_preserves [where P = "\<lambda>w'. files w' = files w"])
     apply (simp add: files_getPreference_A mkdirSync_recursive_files)
    apply (simp add: fetch files_getPreference_A mkdirSync_recursive_files)
    done
  show ?thesis
    unfolding createComponent_A_def Let_def
    apply (rule catch_m_preserves [where P = "\<lambda>w'. files w' = files w"])
     apply (rule inner)
    apply (simp add: inner)
    done
qed

lemma requests_getPreference_B:
  "requests (events (snd (getPreference_B e w))) = requests (events w)"
  unfolding getPreference_B_def
  by (auto simp: requests_append
        intro!: bind_m_preserves [where P = "\<lambda>w'. requests (events w') = requests (events w)"])

lemma requests_getPreference_A:
  "requests (events (snd (getPreference_A e w))) = requests (events w)"
  unfolding getPreference_A_def
  by (auto simp: requests_append
        intro!: bind_m_preserves [where P = "\<lambda>w'. requests (events w') = requests (events w)"])

lemma requests_mkdirSync_recursive:
  "requests (events (snd (mkdirSync_recursive p w))) = requests (events w)"
proof (cases "mkwalk (emit (Fs_mkdir p) w) [] (js_split (CHR ''/'') p)")
  case (Inl code)
  then show ?thesis by (simp add: mkdirSync_recursive_def Let_def requests_append)
next
  case (Inr w2)
  from mkwalk_frame [OF Inr] Inr show ?thesis
    by (simp add: mkdirSync_recursive_def Let_def requests_append)
qed

lemma run_B_add_failed:
  assumes f: "\<And>w'. fetchComponentFromGitHub_B e N w' = (Inl err, emit (Http_get u) w')"
  shows "requests (events (run_B e [''add'', N] w)) = requests (events w)
     \<or> (\<exists>pre. events (run_B e [''add'', N] w) =
           pre @ [Http_get u, Console_error [JStr ''Error creating component:'', message err]])"
proof (cases "N = []")
  case True
  then show ?thesis
    by (simp add: run_B_def main_B_def argv_action_def argv_componentName_def requests_append)
next
  case name: False
  have run: "run_B e [''add'', N] w =
      snd (catch_m (createComponent_B e N w)
        (\<lambda>err w1. (Inr (), console_error [JStr ''Unexpected error:'', message err] w1)))"
    using name by (simp add: run_B_def main_B_def argv_action_def argv_componentName_def)
  obtain r w0 where pref: "getPreference_B e w = (r, w0)" by (cases "getPreference_B e w")
  from requests_getPreference_B [of e w] pref
  have q0: "requests (events w0) = requests (events w)" by simp
  show ?thesis
  proof (cases r)
    case (Inl x)
    with pref q0 show ?thesis by (simp add: run createComponent_B_def requests_append)
  next
    case (Inr config)
    show ?thesis
    proof (cases "get_property config ''language''")
      case (Inl x)
      with pref Inr q0 show ?thesis by (simp add: run createComponent_B_def requests_append)
    next
      case lang: (Inr language)
      show ?thesis
      proof (cases "get_property config ''componentPath''")
        case (Inl x)
        with pref Inr lang q0 show ?thesis
          by (simp add: run createComponent_B_def requests_append)
      next
        case cp: (Inr componentPath)
        show ?thesis
        proof (cases "join_cwd e componentPath")
          case (Inl x)
          with pref Inr lang cp q0 show ?thesis
            by (simp add: run createComponent_B_def requests_append)
        next
          case dir: (Inr d)
          obtain r1 w1 where mk: "ensureDirSync d w0 = (r1, w1)" by (cases "ensureDirSync d w0")
          from requests_mkdirSync_recursive [of d w0] mk
          have q1: "requests (events w1) = requests (events w0)" by (simp add: ensureDirSync_def)
          show ?thesis
          proof (cases r1)
            case (Inl x)
            with pref Inr lang cp dir mk q0 q1 show ?thesis
              by (simp add: run createComponent_B_def requests_append)
          next
            case ok: (Inr x)
            have "events (run_B e [''add'', N] w) =
                (events w1 @ [Console_log [JStr (''Fetching '' @ N @ '' from GitHub...'')]])
                  @ [Http_get u, Console_error [JStr ''Error creating component:'', message err]]"
              using pref Inr lang cp dir mk ok f by (simp add: run createComponent_B_def)
            then show ?thesis by blast
          qed
        qed
      qed
    qed
  qed
qed

lemma main_A_add_failed:
  assumes f: "\<And>w'. fetchComponentFromGitHub_A e N w' =
      (Inl err, console_error [JStr ''Error fetching component from GitHub:'', message err]
         (emit (Http_get u) w'))"
  shows "requests (events (main_A e [''add'', N] w)) = requests (events w)
     \<or> (\<exists>pre. events (main_A e [''add'', N] w) =
           pre @ [Http_get u,
                  Console_error [JStr ''Error fetching component from GitHub:'', message err],
                  Console_error [JStr ''Error creating component:'', err]])"
proof (cases "N = []")
  case True
  then show ?thesis
    by (simp add: main_A_def argv_action_def argv_componentName_def requests_append)
next
  case name: False
  let ?d = "path_join [cwd e, ''multi-ui'', ''components'']"
  have run: "main_A e [''add'', N] w = createComponent_A e N w"
    using name by (simp add: main_A_def argv_action_def argv_componentName_def)
  obtain r w0 where pref: "getPreference_A e w = (r, w0)" by (cases "getPreference_A e w")
  from requests_getPreference_A [of e w] pref
  have q0: "requests (events w0) = requests (events w)" by simp
  show ?thesis
  proof (cases r)
    case (Inl x)
    with pref q0 show ?thesis by (simp add: run createComponent_A_def requests_append)
  next
    case (Inr language)
    obtain r1 w1 where mk:
      "(if \<not> existsSync ?d w0 then mkdirSync_recursive ?d w0 else (Inr (), w0)) = (r1, w1)"
      by (cases "if \<not> existsSync ?d w0 then mkdirSync_recursive ?d w0 else (Inr (), w0)")
    have q1: "requests (events w1) = requests (events w0)"
      using requests_mkdirSync_recursive [of ?d w0] mk by (auto split: if_splits)
    show ?thesis
    proof (cases r1)
      case (Inl x)
      with pref Inr mk q0 q1 show ?thesis
        by (simp add: run createComponent_A_def requests_append Let_def)
    next
      case ok: (Inr x)
      have "events (main_A e [''add'', N] w) =
          (events w1 @ [Console_log [JStr (''Fetching '' @ N @ '' from GitHub...'')]])
            @ [Http_get u,
               Console_error [JStr ''Error fetching component from GitHub:'', message err],
               Console_error [JStr ''Error creating component:'', err]]"
        using pref Inr mk ok f by (simp add: run createComponent_A_def Let_def)
      then show ?thesis by blast
    qed
  qed
qed

text \<open>
  Claim C2, as stated, fails in variant A, which does not classify failures: on a 404
  the error reported is the HTTP client's own, with the message
  \<open>Request failed with status code 404\<close>, not a "not found" error of the script.
\<close>

theorem not_found_report_A_counterexample:
  "fst (fetchComponentFromGitHub_A missing_env ''Missing_1'' fresh_world) =
     Inl (JErr (AxiosError ''Request failed with status code 404'' (Some 404)))
   \<and> \<not> js_includes ''Request failed with status code 404'' ''Missing_1''
   \<and> stderr_lines (events (main_A missing_env [''add'', ''Missing_1''] fresh_world)) =
       [[JStr ''No preference found. Defaulting to TypeScript.''],
        [JStr ''Error fetching component from GitHub:'',
         JStr ''Request failed with status code 404''],
        [JStr ''Error creating component:'',
         JErr (AxiosError ''Request failed with status code 404'' (Some 404))]]"
  by code_simp

text \<open>
  Claim C2, amended.  Take a run of \<open>add N\<close> that issues its request.

  In variant B the run ends by printing \<open>Error creating component:\<close> and a message on
  standard error, right after the request.  When the host answers 404 the message is
  the "not found" one, which holds the component name and the URL requested.  For any
  other status but 200 and for no response at all it is \<open>Error fetching component:\<close>
  followed by the underlying message: the HTTP client's
  \<open>Request failed with status code st\<close> for a status outside 200 to 299, the script's
  \<open>Failed to fetch component:\<close> with the status text for a status from 201 to 299, the
  transport error's own message when there is no response.

  Variant A does not classify: it prints \<open>Error fetching component from GitHub:\<close> with
  the message of what was thrown, then \<open>Error creating component:\<close> with the error
  itself.  That error is the HTTP client's for a status outside 200 to 299 (404
  included) and for no response, and the script's own
  \<open>Failed to fetch component from GitHub: st\<close> for a status from 201 to 299.

  In both variants a run of \<open>add\<close> whose fetch fails leaves every file as it was.
\<close>

theorem fetch_failure_reports:
  "(requests (events (run_B e [''add'', N] w)) \<noteq> requests (events w)
      \<and> remote e (component_url_B e N) = Reply 404 reason body \<longrightarrow>
      (let msg = ''Component '' @ [CHR 0x27] @ N @ [CHR 0x27] @ '' not found at path: ''
                   @ component_url_B e N @ [CHR 0x0A] @ ''Please check the component name and path.''
       in (\<exists>pre. events (run_B e [''add'', N] w) =
             pre @ [Http_get (component_url_B e N),
                    Console_error [JStr ''Error creating component:'', JStr msg]])
          \<and> js_includes msg N \<and> js_includes msg (component_url_B e N)))
   \<and> (requests (events (run_B e [''add'', N] w)) \<noteq> requests (events w)
      \<and> remote e (component_url_B e N) = Reply st reason body \<and> st \<noteq> 200 \<and> st \<noteq> 404 \<longrightarrow>
      (\<exists>pre. events (run_B e [''add'', N] w) =
         pre @ [Http_get (component_url_B e N),
                Console_error [JStr ''Error creating component:'',
                  JStr (''Error fetching component: ''
                    @ (if 200 \<le> st \<and> st < 300 then ''Failed to fetch component: '' @ reason
                       else ''Request failed with status code '' @ show_nat st))]]))
   \<and> (requests (events (run_B e [''add'', N] w)) \<noteq> requests (events w)
      \<and> remote e (component_url_B e N) = NoReply m \<longrightarrow>
      (\<exists>pre. events (run_B e [''add'', N] w) =
         pre @ [Http_get (component_url_B e N),
                Console_error [JStr ''Error creating component:'',
                  JStr (''Error fetching component: '' @ m)]]))
   \<and> (\<not> fetch_ok (remote e (component_url_B e N)) \<longrightarrow> files (run_B e [''add'', N] w) = files w)
   \<and> (requests (events (main_A e [''add'', N] w)) \<noteq> requests (events w)
      \<and> remote e (component_url_A e N) = Reply st reason body \<and> st \<noteq> 200 \<longrightarrow>
      (\<exists>pre. events (main_A e [''add'', N] w) =
         pre @ [Http_get (component_url_A e N),
                Console_error [JStr ''Error fetching component from GitHub:'',
                  JStr (if 200 \<le> st \<and> st < 300
                        then ''Failed to fetch component from GitHub: '' @ show_nat st
                        else ''Request failed with status code '' @ show_nat st)],
                Console_error [JStr ''Error creating component:'',
                  JErr (if 200 \<le> st \<and> st < 300
                        then Error (''Failed to fetch component from GitHub: '' @ show_nat st)
                        else AxiosError (''Request failed with status code '' @ show_nat st)
                               (Some st))]]))
   \<and> (requests (events (main_A e [''add'', N] w)) \<noteq> requests (events w)
      \<and> remote e (component_url_A e N) = NoReply m \<longrightarrow>
      (\<exists>pre. events (main_A e [''add'', N] w) =
         pre @ [Http_get (component_url_A e N),
                Console_error [JStr ''Error fetching component from GitHub:'', JStr m],
                Console_error [JStr ''Error creating component:'', JErr (AxiosError m None)]]))
   \<and> (\<not> fetch_ok (remote e (component_url_A e N)) \<longrightarrow> files (main_A e [''add'', N] w) = files w)"
proof -
  let ?uB = "component_url_B e N" and ?uA = "component_url_A e N"
  let ?msg = "''Component '' @ [CHR 0x27] @ N @ [CHR 0x27] @ '' not found at path: ''
                @ ?uB @ [CHR 0x0A] @ ''Please check the component name and path.''"
  have inc1: "js_includes ?msg N"
    using js_includes_mid [of "''Component '' @ [CHR 0x27]" N] by simp
  have inc2: "js_includes ?msg ?uB"
    using js_includes_mid [of "''Component '' @ [CHR 0x27] @ N @ [CHR 0x27] @ '' not found at path: ''"
          ?uB] by simp
  have b404: "\<exists>pre. events (run_B e [''add'', N] w) =
       pre @ [Http_get ?uB, Console_error [JStr ''Error creating component:'', JStr ?msg]]"
    if att: "requests (events (run_B e [''add'', N] w)) \<noteq> requests (events w)"
      and r: "remote e ?uB = Reply 404 reason body"
  proof -
    have "fetchComponentFromGitHub_B e N w' = (Inl (JErr (Error ?msg)), emit (Http_get ?uB) w')"
      for w' using r by (simp add: fetchComponentFromGitHub_B_def axios_get_def Let_def)
    from run_B_add_failed [OF this, of w] att show ?thesis by simp
  qed
  have bother: "\<exists>pre. events (run_B e [''add'', N] w) =
       pre @ [Http_get ?uB, Console_error [JStr ''Error creating component:'',
         JStr (''Error fetching component: ''
            @ (if 200 \<le> st \<and> st < 300 then ''Failed to fetch component: '' @ reason
               else ''Request failed with status code '' @ show_nat st))]]"
    if att: "requests (events (run_B e [''add'', N] w)) \<noteq> requests (events w)"
      and r: "remote e ?uB = Reply st reason body" and st: "st \<noteq> 200" "st \<noteq> 404"
  proof -
    have "fetchComponentFromGitHub_B e N w' =
        (Inl (JErr (Error (''Error fetching component: ''
            @ (if 200 \<le> st \<and> st < 300 then ''Failed to fetch component: '' @ reason
               else ''Request failed with status code '' @ show_nat st)))), emit (Http_get ?uB) w')"
      for w' using r st by (simp add: fetchComponentFromGitHub_B_def axios_get_def Let_def)
    from run_B_add_failed [OF this, of w] att show ?thesis by simp
  qed
  have bnone: "\<exists>pre. events (run_B e [''add'', N] w) =
       pre @ [Http_get ?uB, Console_error [JStr ''Error creating component:'',
         JStr (''Error fetching component: '' @ m)]]"
    if att: "requests (events (run_B e [''add'', N] w)) \<noteq> requests (events w)"
      and r: "remote e ?uB = NoReply m"
  proof -
    have "fetchComponentFromGitHub_B e N w' =
        (Inl (JErr (Error (''Error fetching component: '' @ m))), emit (Http_get ?uB) w')"
      for w' using r by (simp add: fetchComponentFromGitHub_B_def axios_get_def Let_def)
    from run_B_add_failed [OF this, of w] att show ?thesis by simp
  qed
  have astatus: "\<exists>pre. events (main_A e [''add'', N] w) =
         pre @ [Http_get ?uA,
                Console_error [JStr ''Error fetching component from GitHub:'',
                  JStr (if 200 \<le> st \<and> st < 300
                        then ''Failed to fetch component from GitHub: '' @ show_nat st
                        else ''Request failed with status code '' @ show_nat st)],
                Console_error [JStr ''Error creating component:'',
                  JErr (if 200 \<le> st \<and> st < 300
                        then Error (''Failed to fetch component from GitHub: '' @ show_nat st)
                        else AxiosError (''Request failed with status code '' @ show_nat st)
                               (Some st))]]"
    if att: "requests (events (main_A e [''add'', N] w)) \<noteq> requests (events w)"
      and r: "remote e ?uA = Reply st reason body" and st: "st \<noteq> 200"
  proof (cases "200 \<le> st \<and> st < 300")
    case True
    let ?err = "JErr (Error (''Failed to fetch component from GitHub: '' @ show_nat st))"
    have "fetchComponentFromGitHub_A e N w' =
        (Inl ?err, console_error [JStr ''Error fetching component from GitHub:'', message ?err]
           (emit (Http_get ?uA) w'))"
      for w' using r st True by (simp add: fetchComponentFromGitHub_A_def axios_get_def Let_def)
    from main_A_add_failed [OF this, of w] att show ?thesis unfolding if_P [OF True] by simp
  next
    case False
    let ?err = "JErr (AxiosError (''Request failed with status code '' @ show_nat st) (Some st))"
    have "fetchComponentFromGitHub_A e N w' =
        (Inl ?err, console_error [JStr ''Error fetching component from GitHub:'', message ?err]
           (emit (Http_get ?uA) w'))"
      for w' using r st False by (simp add: fetchComponentFromGitHub_A_def axios_get_def Let_def)
    from main_A_add_failed [OF this, of w] att show ?thesis unfolding if_not_P [OF False] by simp
  qed
  have anone: "\<exists>pre. events (main_A e [''add'', N] w) =
         pre @ [Http_get ?uA,
                Console_error [JStr ''Error fetching component from GitHub:'', JStr m],
                Console_error [JStr ''Error creating component:'', JErr (AxiosError m None)]]"
    if att: "requests (events (main_A e [''add'', N] w)) \<noteq> requests (events w)"
      and r: "remote e ?uA = NoReply m"
  proof -
    have "fetchComponentFromGitHub_A e N w' =
        (Inl (JErr (AxiosError m None)),
         console_error [JStr ''Error fetching component from GitHub:'',
             message (JErr (AxiosError m None))]
           (emit (Http_get ?uA) w'))"
      for w' using r by (simp add: fetchComponentFromGitHub_A_def axios_get_def Let_def)
    from main_A_add_failed [OF this, of w] att show ?thesis by simp
  qed
  have runB: "files (run_B e [''add'', N] w) = files w"
    if "\<not> fetch_ok (remote e ?uB)"
    using files_createComponent_B_failed [OF that, of w]
    by (cases "createComponent_B e N w"; cases "fst (createComponent_B e N w)")
       (auto simp: run_B_def main_B_def argv_action_def argv_componentName_def)
  have runA: "files (main_A e [''add'', N] w) = files w"
    if "\<not> fetch_ok (remote e ?uA)"
    using files_createComponent_A_failed [OF that, of w]
    by (auto simp: main_A_def argv_action_def argv_componentName_def)
  show ?thesis
    unfolding Let_def
    apply (intro conjI impI)
    subgoal using b404 by blast
    subgoal by (rule inc1)
    subgoal by (rule inc2)
    subgoal using bother by blast
    subgoal using bnone by blast
    subgoal using runB by blast
    subgoal using astatus by blast
    subgoal using anone by blast
    subgoal using runA by blast
    done
qed

theorem fetch_failure_reports_witness:
  "requests (events (run_B missing_env [''add'', ''Missing_1''] fresh_world))
      \<noteq> requests (events fresh_world)
   \<and> remote missing_env (component_url_B missing_env ''Missing_1'') =
       Reply 404 ''Not Found'' (JStr ''404: Not Found'')
   \<and> (\<exists>pre. events (run_B missing_env [''add'', ''Missing_1''] fresh_world) =
         pre @ [Http_get ''https://raw.githubusercontent.com/om0852/multi-ui/main/app/missing/_components/Missing_1.tsx'',
                Console_error [JStr ''Error creating component:'',
                  JStr (''Component '' @ [CHR 0x27] @ ''Missing_1'' @ [CHR 0x27]
                    @ '' not found at path: https://raw.githubusercontent.com/om0852/multi-ui/main/app/missing/_components/Missing_1.tsx''
                    @ [CHR 0x0A] @ ''Please check the component name and path.'')]])
   \<and> files (run_B missing_env [''add'', ''Missing_1''] fresh_world) = []
   \<and> requests (events (main_A missing_env [''add'', ''Missing_1''] fresh_world))
      \<noteq> requests (events fresh_world)
   \<and> (\<exists>pre. events (main_A missing_env [''add'', ''Missing_1''] fresh_world) =
         pre @ [Http_get ''https://raw.githubusercontent.com/om0852/multi-ui/main/src/app/missing/_components/Missing_1.tsx'',
                Console_error [JStr ''Error fetching component from GitHub:'',
                  JStr ''Request failed with status code 404''],
                Console_error [JStr ''Error creating component:'',
                  JErr (AxiosError ''Request failed with status code 404'' (Some 404))]])
   \<and> files (main_A missing_env [''add'', ''Missing_1''] fresh_world) = []"
proof -
  have aB: "requests (events (run_B missing_env [''add'', ''Missing_1''] fresh_world))
      \<noteq> requests (events fresh_world)" by code_simp
  have aA: "requests (events (main_A missing_env [''add'', ''Missing_1''] fresh_world))
      \<noteq> requests (events fresh_world)" by code_simp
  have rB: "remote missing_env (component_url_B missing_env ''Missing_1'') =
      Reply 404 ''Not Found'' (JStr ''404: Not Found'')"
    and rA: "remote missing_env (component_url_A missing_env ''Missing_1'') =
      Reply 404 ''Not Found'' (JStr ''404: Not Found'')"
    by (simp_all add: missing_env_def)
  have uB: "component_url_B missing_env ''Missing_1'' =
      ''https://raw.githubusercontent.com/om0852/multi-ui/main/app/missing/_components/Missing_1.tsx''"
    by code_simp
  have uA: "component_url_A missing_env ''Missing_1'' =
      ''https://raw.githubusercontent.com/om0852/multi-ui/main/src/app/missing/_components/Missing_1.tsx''"
    by code_simp
  have s: "show_nat 404 = ''404''" by code_simp
  have f: "files fresh_world = []" by (simp add: fresh_world_def)
  from fetch_failure_reports [of missing_env "''Missing_1''" fresh_world "''Not Found''"
      "JStr ''404: Not Found''" 404 "''x''"] aB aA rB rA
  show ?thesis unfolding uB uA by (simp add: Let_def s f)
qed

subsection \<open>The preference store\<close>

text \<open>
  Claim C6, as stated, fails in variant A, whose preference is the language alone:
  with no preference file its \<open>getPreference\<close> returns the string \<open>typescript\<close>, which
  has no component path.
\<close>

theorem default_preference_A_counterexample:
  "\<not> existsSync (preferenceFile sample_env) fresh_world
   \<and> getPreference_A sample_env fresh_world =
       (Inr (JStr ''typescript''),
        console_warn [JStr ''No preference found. Defaulting to TypeScript.''] fresh_world)
   \<and> get_property (JStr ''typescript'') ''componentPath'' = Inr JUndefined
   \<and> fst (getPreference_A sample_env fresh_world) \<noteq>
       Inr (JObj [(''language'', JStr ''typescript''),
                  (''componentPath'', JStr ''src/app/multi-ui/components'')])"
  by code_simp

text \<open>
  Claim C6, amended.  When nothing exists at \<open>multi-ui.config.json\<close> under the working
  directory, \<open>getPreference\<close> does not raise, prints one warning, and leaves files and
  directories as they were, in both variants.  Variant B returns the default object
  (\<open>typescript\<close>, \<open>src/app/multi-ui/components\<close>); variant A returns the language
  \<open>typescript\<close> alone.
\<close>

theorem default_preference_when_no_file:
  assumes "\<not> existsSync (path_join [cwd e, ''multi-ui.config.json'']) w"
  shows "getPreference_B e w =
      (Inr (JObj [(''language'', JStr ''typescript''),
                  (''componentPath'', JStr ''src/app/multi-ui/components'')]),
       console_warn
         [JStr ''No preference found. Defaulting to TypeScript and default folder structure.''] w)
    \<and> files (snd (getPreference_B e w)) = files w
    \<and> dirs (snd (getPreference_B e w)) = dirs w
    \<and> events (snd (getPreference_B e w)) = events w @
        [Console_warn
           [JStr ''No preference found. Defaulting to TypeScript and default folder structure.'']]
    \<and> getPreference_A e w =
      (Inr (JStr ''typescript''),
       console_warn [JStr ''No preference found. Defaulting to TypeScript.''] w)
    \<and> files (snd (getPreference_A e w)) = files w
    \<and> dirs (snd (getPreference_A e w)) = dirs w
    \<and> events (snd (getPreference_A e w)) = events w @
        [Console_warn [JStr ''No preference found. Defaulting to TypeScript.'']]
    \<and> CONFIG_FILE e = path_join [cwd e, ''multi-ui.config.json'']
    \<and> preferenceFile e = path_join [cwd e, ''multi-ui.config.json'']"
  using assms
  by (simp add: getPreference_B_def getPreference_A_def DEFAULT_COMPONENT_PATH_def
        CONFIG_FILE_def preferenceFile_def)

theorem default_preference_when_no_file_witness:
  "\<not> existsSync (path_join [cwd sample_env, ''multi-ui.config.json'']) fresh_world
   \<and> getPreference_B sample_env fresh_world =
      (Inr (JObj [(''language'', JStr ''typescript''),
                  (''componentPath'', JStr ''src/app/multi-ui/components'')]),
       console_warn
         [JStr ''No preference found. Defaulting to TypeScript and default folder structure.'']
         fresh_world)
   \<and> getPreference_A sample_env fresh_world =
      (Inr (JStr ''typescript''),
       console_warn [JStr ''No preference found. Defaulting to TypeScript.''] fresh_world)"
proof -
  have h: "\<not> existsSync (path_join [cwd sample_env, ''multi-ui.config.json'']) fresh_world"
    by code_simp
  from default_preference_when_no_file [OF h] h show ?thesis by simp
qed

subsection \<open>Writing and reading the preference\<close>

lemma writeFileSync_string:
  "writeFileSync p (JStr c) w =
     (case resolve w p of
        Inl code \<Rightarrow> (Inl (JErr (SystemError code ''open'' p)), emit (Fs_write p) w)
      | Inr t \<Rightarrow>
          if isDir w t then (Inl (JErr (SystemError ''EISDIR'' ''open'' p)), emit (Fs_write p) w)
          else (Inr (), (emit (Fs_write p) w)\<lparr>files := AList.update t c (files w)\<rparr>))"
  by (simp add: writeFileSync_def Let_def resolve_cong [of "emit (Fs_write p) w" w] isDir_def
        split: sum.splits)

lemma writeFileSync_ok:
  assumes "writeFileSync p (JStr c) w = (Inr (), w')"
  obtains t where "resolve w p = Inr t" "\<not> isDir w t"
    "w' = (emit (Fs_write p) w)\<lparr>files := AList.update t c (files w)\<rparr>"
  using assms by (auto simp: writeFileSync_string split: sum.splits if_splits)

lemma read_after_write:
  assumes "writeFileSync p (JStr c) w = (Inr (), w')"
  shows "existsSync p w' \<and> readFileSync p w' = Inr c"
proof -
  from assms obtain t where t: "resolve w p = Inr t" "\<not> isDir w t"
    and w': "w' = (emit (Fs_write p) w)\<lparr>files := AList.update t c (files w)\<rparr>"
    by (rule writeFileSync_ok)
  have d: "dirs w' = dirs w" by (simp add: w')
  have r: "resolve w' p = Inr t"
    using walk_dirs_only [OF d] t(1) by (simp add: resolve_def)
  have m: "map_of (files w') t = Some c" by (simp add: w' update_conv')
  show ?thesis
    by (simp add: existsSync_def readFileSync_def r m isFile_def)
qed

lemma writeFileSync_after:
  assumes "resolve w p = Inr t" and "\<not> isDir w t" and "dirs w0 = dirs w" and "files w0 = files w"
  shows "writeFileSync p (JStr c) w0 =
           (Inr (), (emit (Fs_write p) w0)\<lparr>files := AList.update t c (files w)\<rparr>)"
  using assms by (simp add: writeFileSync_string resolve_cong [of w0 w] isDir_def)

lemma setupProject_B_ok:
  assumes "answers e = Inr (L, D)" and "resolve w (CONFIG_FILE e) = Inr t" and "\<not> isDir w t"
  shows "setupProject_B e w =
      console_log [JStr (''Setup complete! Language: '' @ L @ '', Components Path: ''
          @ path_join [D, ''multi-ui'', ''components''])]
        ((emit (Fs_write (CONFIG_FILE e)) (emit Prompt w))
           \<lparr>files := AList.update t
              (JSON_stringify [(''language'', toLowerCase e L),
                 (''componentPath'', path_join [D, ''multi-ui'', ''components''])]) (files w)\<rparr>)"
  using assms(1) writeFileSync_after [OF assms(2,3), of "emit Prompt w"]
  by (simp add: setupProject_B_def Let_def)

lemma setupProject_A_ok:
  assumes "answers e = Inr (L, D)" and "resolve w (preferenceFile e) = Inr t" and "\<not> isDir w t"
  shows "setupProject_A e w =
      console_log [JStr (''Project setup complete! Language preference saved: '' @ L)]
        ((emit (Fs_write (preferenceFile e)) (emit Prompt w))
           \<lparr>files := AList.update t (JSON_stringify [(''language'', toLowerCase e L)]) (files w)\<rparr>)"
  using assms(1) writeFileSync_after [OF assms(2,3), of "emit Prompt w"]
  by (simp add: setupProject_A_def Let_def)

lemma read_after_setupProject_B:
  assumes "answers e = Inr (L, D)" and "resolve w (CONFIG_FILE e) = Inr t" and "\<not> isDir w t"
  shows "existsSync (CONFIG_FILE e) (setupProject_B e w)
    \<and> readFileSync (CONFIG_FILE e) (setupProject_B e w) =
        Inr (JSON_stringify [(''language'', toLowerCase e L),
               (''componentPath'', path_join [D, ''multi-ui'', ''components''])])
    \<and> files (setupProject_B e w) =
        AList.update t (JSON_stringify [(''language'', toLowerCase e L),
               (''componentPath'', path_join [D, ''multi-ui'', ''components''])]) (files w)
    \<and> dirs (setupProject_B e w) = dirs w"
proof -
  let ?cfg = "JSON_stringify [(''language'', toLowerCase e L),
                (''componentPath'', path_join [D, ''multi-ui'', ''components''])]"
  let ?w1 = "(emit (Fs_write (CONFIG_FILE e)) (emit Prompt w))\<lparr>files := AList.update t ?cfg (files w)\<rparr>"
  have wr: "writeFileSync (CONFIG_FILE e) (JStr ?cfg) (emit Prompt w) = (Inr (), ?w1)"
    using writeFileSync_after [OF assms(2,3), of "emit Prompt w"] by simp
  have same: "dirs (setupProject_B e w) = dirs ?w1" "files (setupProject_B e w) = files ?w1"
    by (simp_all add: setupProject_B_ok [OF assms])
  from read_after_write [OF wr] existsSync_cong [OF same] readFileSync_cong [OF same] same
  show ?thesis by simp
qed

lemma read_after_setupProject_A:
  assumes "answers e = Inr (L, D)" and "resolve w (preferenceFile e) = Inr t" and "\<not> isDir w t"
  shows "existsSync (preferenceFile e) (setupProject_A e w)
    \<and> readFileSync (preferenceFile e) (setupProject_A e w) =
        Inr (JSON_stringify [(''language'', toLowerCase e L)])
    \<and> files (setupProject_A e w) =
        AList.update t (JSON_stringify [(''language'', toLowerCase e L)]) (files w)
    \<and> dirs (setupProject_A e w) = dirs w"
proof -
  let ?cfg = "JSON_stringify [(''language'', toLowerCase e L)]"
  let ?w1 = "(emit (Fs_write (preferenceFile e)) (emit Prompt w))\<lparr>files := AList.update t ?cfg (files w)\<rparr>"
  have wr: "writeFileSync (preferenceFile e) (JStr ?cfg) (emit Prompt w) = (Inr (), ?w1)"
    using writeFileSync_after [OF assms(2,3), of "emit Prompt w"] by simp
  have same: "dirs (setupProject_A e w) = dirs ?w1" "files (setupProject_A e w) = files ?w1"
    by (simp_all add: setupProject_A_ok [OF assms])
  from read_after_write [OF wr] existsSync_cong [OF same] readFileSync_cong [OF same] same
  show ?thesis by simp
qed

lemma getPreference_B_after_setup:
  assumes "answers e = Inr (L, D)" and "resolve w (CONFIG_FILE e) = Inr t" and "\<not> isDir w t"
  shows "getPreference_B e (setupProject_B e w) =
      (Inr (JObj [(''language'', JStr (toLowerCase e L)),
                  (''componentPath'', JStr (path_join [D, ''multi-ui'', ''components'']))]),
       setupProject_B e w)"
  using read_after_setupProject_B [OF assms]
  by (simp add: getPreference_B_def JSON_roundtrip_config)

lemma getPreference_A_after_setup:
  assumes "answers e = Inr (L, D)" and "resolve w (preferenceFile e) = Inr t" and "\<not> isDir w t"
  shows "getPreference_A e (setupProject_A e w) = (Inr (JStr (toLowerCase e L)), setupProject_A e w)"
  using read_after_setupProject_A [OF assms]
  by (simp add: getPreference_A_def JSON_roundtrip_language)

lemma preferenceFile_CONFIG_FILE: "preferenceFile e = CONFIG_FILE e"
  by (simp add: preferenceFile_def CONFIG_FILE_def)

text \<open>
  Claim C4, as stated, fails in variant A.  Its \<open>setupProject\<close> writes the language
  alone and its \<open>getPreference\<close> returns the language alone, so no component path
  comes back from the store: not after its own write, and not after the write of
  variant B, which does store one.
\<close>

theorem preference_roundtrip_A_counterexample:
  "answers sample_env = Inr (''TypeScript'', ''app/'')
   \<and> getPreference_A sample_env (setupProject_A sample_env fresh_world) =
       (Inr (JStr ''typescript''), setupProject_A sample_env fresh_world)
   \<and> get_property (JStr ''typescript'') ''componentPath'' = Inr JUndefined
   \<and> getPreference_B sample_env (setupProject_B sample_env fresh_world) =
       (Inr (JObj [(''language'', JStr ''typescript''),
                   (''componentPath'', JStr ''app/multi-ui/components'')]),
        setupProject_B sample_env fresh_world)
   \<and> getPreference_A sample_env (setupProject_B sample_env fresh_world) =
       (Inr (JStr ''typescript''), setupProject_B sample_env fresh_world)"
  by code_simp

text \<open>
  Claim C4, amended.  The preference is written by \<open>setupProject\<close> only.  When the
  prompt is answered with \<open>L\<close> and \<open>D\<close> and the preference file can be written (its
  parent exists and it is not a directory), \<open>getPreference\<close> in the world that
  \<open>setupProject\<close> leaves returns what was written, unchanged and without a warning:
  in variant B the object with the two members \<open>language\<close> and \<open>componentPath\<close>, in
  variant A the language, its only field.  The same holds for any two strings \<open>l\<close> and
  \<open>p\<close> put through the write statement of \<open>setupProject\<close>,
  \<open>fs.writeFileSync(CONFIG_FILE, JSON.stringify(config, null, 2))\<close>.
\<close>

theorem preference_roundtrip:
  "(answers e = Inr (L, D) \<and> resolve w (CONFIG_FILE e) = Inr t \<and> \<not> isDir w t \<longrightarrow>
      getPreference_B e (setupProject_B e w) =
        (Inr (JObj [(''language'', JStr (toLowerCase e L)),
                    (''componentPath'', JStr (path_join [D, ''multi-ui'', ''components'']))]),
         setupProject_B e w)
      \<and> getPreference_A e (setupProject_A e w) =
        (Inr (JStr (toLowerCase e L)), setupProject_A e w))
   \<and> (writeFileSync (CONFIG_FILE e)
         (JStr (JSON_stringify [(''language'', l), (''componentPath'', p)])) w = (Inr (), w') \<longrightarrow>
      getPreference_B e w' = (Inr (JObj [(''language'', JStr l), (''componentPath'', JStr p)]), w')
      \<and> get_property (JObj [(''language'', JStr l), (''componentPath'', JStr p)]) ''language''
           = Inr (JStr l)
      \<and> get_property (JObj [(''language'', JStr l), (''componentPath'', JStr p)]) ''componentPath''
           = Inr (JStr p))
   \<and> (writeFileSync (preferenceFile e) (JStr (JSON_stringify [(''language'', l)])) w = (Inr (), w') \<longrightarrow>
      getPreference_A e w' = (Inr (JStr l), w'))"
proof (intro conjI impI)
  assume h: "answers e = Inr (L, D) \<and> resolve w (CONFIG_FILE e) = Inr t \<and> \<not> isDir w t"
  then have h1: "answers e = Inr (L, D)" and h2: "resolve w (CONFIG_FILE e) = Inr t"
    and h3: "\<not> isDir w t" by simp_all
  from getPreference_B_after_setup [OF h1 h2 h3]
  show "getPreference_B e (setupProject_B e w) =
        (Inr (JObj [(''language'', JStr (toLowerCase e L)),
                    (''componentPath'', JStr (path_join [D, ''multi-ui'', ''components'']))]),
         setupProject_B e w)" .
  from h2 have h2': "resolve w (preferenceFile e) = Inr t" by (simp add: preferenceFile_CONFIG_FILE)
  from getPreference_A_after_setup [OF h1 h2' h3]
  show "getPreference_A e (setupProject_A e w) =
        (Inr (JStr (toLowerCase e L)), setupProject_A e w)" .
next
  assume wr: "writeFileSync (CONFIG_FILE e)
         (JStr (JSON_stringify [(''language'', l), (''componentPath'', p)])) w = (Inr (), w')"
  from read_after_write [OF wr]
  show "getPreference_B e w' = (Inr (JObj [(''language'', JStr l), (''componentPath'', JStr p)]), w')"
    by (simp add: getPreference_B_def JSON_roundtrip_config)
next
  show "get_property (JObj [(''language'', JStr l), (''componentPath'', JStr p)]) ''language''
           = Inr (JStr l)" by simp
next
  show "get_property (JObj [(''language'', JStr l), (''componentPath'', JStr p)]) ''componentPath''
           = Inr (JStr p)" by simp
next
  assume wr: "writeFileSync (preferenceFile e) (JStr (JSON_stringify [(''language'', l)])) w = (Inr (), w')"
  from read_after_write [OF wr]
  show "getPreference_A e w' = (Inr (JStr l), w')"
    by (simp add: getPreference_A_def JSON_roundtrip_language)
qed

theorem preference_roundtrip_witness:
  "answers javascript_env = Inr (''JavaScript'', ''app/'')
   \<and> resolve fresh_world (CONFIG_FILE javascript_env) = Inr [''proj'', ''multi-ui.config.json'']
   \<and> \<not> isDir fresh_world [''proj'', ''multi-ui.config.json'']
   \<and> files (setupProject_B javascript_env fresh_world) =
       [([''proj'', ''multi-ui.config.json''],
         JSON_stringify [(''language'', ''javascript''), (''componentPath'', ''app/multi-ui/components'')])]
   \<and> getPreference_B javascript_env (setupProject_B javascript_env fresh_world) =
       (Inr (JObj [(''language'', JStr ''javascript''),
                   (''componentPath'', JStr ''app/multi-ui/components'')]),
        setupProject_B javascript_env fresh_world)
   \<and> getPreference_A javascript_env (setupProject_A javascript_env fresh_world) =
       (Inr (JStr ''javascript''), setupProject_A javascript_env fresh_world)
   \<and> writeFileSync (CONFIG_FILE sample_env)
       (JStr (JSON_stringify [(''language'', ''C:'' @ [CHR 0x5C] @ ''x''), (''componentPath'', ''a'' @ [CHR 0x22] @ ''b'')]))
       fresh_world =
       (Inr (), \<lparr>files = [([''proj'', ''multi-ui.config.json''],
          JSON_stringify [(''language'', ''C:'' @ [CHR 0x5C] @ ''x''), (''componentPath'', ''a'' @ [CHR 0x22] @ ''b'')])],
        dirs = [[''proj'']], events = [Fs_write ''/proj/multi-ui.config.json'']\<rparr>)
   \<and> fst (getPreference_B sample_env
       \<lparr>files = [([''proj'', ''multi-ui.config.json''],
          JSON_stringify [(''language'', ''C:'' @ [CHR 0x5C] @ ''x''), (''componentPath'', ''a'' @ [CHR 0x22] @ ''b'')])],
        dirs = [[''proj'']], events = [Fs_write ''/proj/multi-ui.config.json'']\<rparr>) =
     Inr (JObj [(''language'', JStr (''C:'' @ [CHR 0x5C] @ ''x'')), (''componentPath'', JStr (''a'' @ [CHR 0x22] @ ''b''))])"
proof -
  let ?w' = "\<lparr>files = [([''proj'', ''multi-ui.config.json''],
          JSON_stringify [(''language'', ''C:'' @ [CHR 0x5C] @ ''x''), (''componentPath'', ''a'' @ [CHR 0x22] @ ''b'')])],
        dirs = [[''proj'']], events = [Fs_write ''/proj/multi-ui.config.json'']\<rparr>"
  have h1: "answers javascript_env = Inr (''JavaScript'', ''app/'')"
    by (simp add: javascript_env_def sample_env_def)
  have h2: "resolve fresh_world (CONFIG_FILE javascript_env) = Inr [''proj'', ''multi-ui.config.json'']"
    by code_simp
  have h3: "\<not> isDir fresh_world [''proj'', ''multi-ui.config.json'']" by code_simp
  have h4: "writeFileSync (CONFIG_FILE sample_env)
       (JStr (JSON_stringify [(''language'', ''C:'' @ [CHR 0x5C] @ ''x''), (''componentPath'', ''a'' @ [CHR 0x22] @ ''b'')]))
       fresh_world = (Inr (), ?w')" by code_simp
  have l: "toLowerCase javascript_env ''JavaScript'' = ''javascript''" by code_simp
  have j: "path_join [''app/'', ''multi-ui'', ''components''] = ''app/multi-ui/components''" by code_simp
  have f: "files (setupProject_B javascript_env fresh_world) =
       [([''proj'', ''multi-ui.config.json''],
         JSON_stringify [(''language'', ''javascript''), (''componentPath'', ''app/multi-ui/components'')])]"
    by code_simp
  from preference_roundtrip [of javascript_env "''JavaScript''" "''app/''" fresh_world
      "[''proj'', ''multi-ui.config.json'']" "''x''" "''y''" "fresh_world"] h1 h2 h3
  have a: "getPreference_B javascript_env (setupProject_B javascript_env fresh_world) =
       (Inr (JObj [(''language'', JStr ''javascript''),
                   (''componentPath'', JStr ''app/multi-ui/components'')]),
        setupProject_B javascript_env fresh_world)
     \<and> getPreference_A javascript_env (setupProject_A javascript_env fresh_world) =
       (Inr (JStr ''javascript''), setupProject_A javascript_env fresh_world)"
    unfolding l j by blast
  from preference_roundtrip [of sample_env "''x''" "''y''" fresh_world "[]"
      "''C:'' @ [CHR 0x5C] @ ''x''" "''a'' @ [CHR 0x22] @ ''b''" ?w'] h4
  have b: "getPreference_B sample_env ?w' =
     (Inr (JObj [(''language'', JStr (''C:'' @ [CHR 0x5C] @ ''x'')), (''componentPath'', JStr (''a'' @ [CHR 0x22] @ ''b''))]), ?w')"
    by blast
  from a b h1 h2 h3 h4 f show ?thesis by simp
qed




subsection \<open>The component directory and the fetch\<close>











subsection \<open>The output path\<close>

text \<open>
  Claim C10.  The component name goes into the output path as it is.  For the name
  \<open>../../escape\<close>, which holds a separator and \<open>..\<close> segments, a run of \<open>add\<close> writes
  the file \<open>escape.tsx\<close> two levels above the component directory: in variant B with
  the component path \<open>app/multi-ui/components\<close> stored by \<open>setup\<close>, and in variant A
  with its fixed directory.  In both, the component directory is not a prefix of the
  path of the file written.
\<close>

theorem add_writes_outside_component_directory:
  "\<exists>N. js_includes N ''..'' \<and> CHR ''/'' \<in> set N
     \<and> getPreference_B sample_env (run_B sample_env [''setup''] fresh_world) =
         (Inr (JObj [(''language'', JStr ''typescript''),
                     (''componentPath'', JStr ''app/multi-ui/components'')]),
          run_B sample_env [''setup''] fresh_world)
     \<and> resolve (run_B sample_env [''add'', N] (run_B sample_env [''setup''] fresh_world))
           (path_join [cwd sample_env, ''app/multi-ui/components'']) =
         Inr [''proj'', ''app'', ''multi-ui'', ''components'']
     \<and> map fst (files (run_B sample_env [''add'', N] (run_B sample_env [''setup''] fresh_world))) =
         [[''proj'', ''multi-ui.config.json''], [''proj'', ''app'', ''escape.tsx'']]
     \<and> \<not> prefix [''proj'', ''app'', ''multi-ui'', ''components''] [''proj'', ''app'', ''escape.tsx'']
     \<and> resolve (main_A sample_env [''add'', N] fresh_world)
           (path_join [cwd sample_env, ''multi-ui'', ''components'']) =
         Inr [''proj'', ''multi-ui'', ''components'']
     \<and> files (main_A sample_env [''add'', N] fresh_world) =
         [([''proj'', ''escape.tsx''], ''export default function Button(){}'')]
     \<and> \<not> prefix [''proj'', ''multi-ui'', ''components''] [''proj'', ''escape.tsx'']"
  by (rule exI [of _ "''../../escape''"]) code_simp

subsection \<open>The JavaScript preference in variant A\<close>

text \<open>
  Claim C1 at a failing input.  In variant A, with the preference \<open>javascript\<close> stored
  by its own \<open>setup\<close> and a host that answers 200 with the component text, a run of
  \<open>add Button_1\<close> writes no file at all: the branch for \<open>javascript\<close> drops the fetched
  text and reads the directory \<open>multi-ui/components/Button_1\<close>, which does not exist.
\<close>

theorem add_javascript_A_writes_no_component:
  "getPreference_A sample_env (main_A javascript_env [''setup''] fresh_world) =
     (Inr (JStr ''javascript''), main_A javascript_env [''setup''] fresh_world)
   \<and> remote sample_env (component_url_A sample_env ''Button_1'') =
       Reply 200 ''OK'' (JStr ''export default function Button(){}'')
   \<and> files (main_A sample_env [''add'', ''Button_1''] (main_A javascript_env [''setup''] fresh_world)) =
       files (main_A javascript_env [''setup''] fresh_world)
   \<and> map fst (files (main_A sample_env [''add'', ''Button_1'']
        (main_A javascript_env [''setup''] fresh_world))) = [[''proj'', ''multi-ui.config.json'']]
   \<and> \<not> existsSync ''/proj/multi-ui/components/Button_1.jsx''
        (main_A sample_env [''add'', ''Button_1''] (main_A javascript_env [''setup''] fresh_world))
   \<and> stderr_lines (events (main_A sample_env [''add'', ''Button_1'']
        (main_A javascript_env [''setup''] fresh_world))) =
       [[JStr ''Error creating component:'',
         JErr (SystemError ''ENOENT'' ''scandir'' ''/proj/multi-ui/components/Button_1'')]]"
  by code_simp

end
